theory Spec2Isabelle
  imports Main "HOL-Library.Word"
begin

section \<open>JavaScript strings\<close>

text \<open>
  A JavaScript string is a sequence of UTF-16 code units. The regular expressions of
  \<^verbatim>\<open>server.js\<close> carry no \<^verbatim>\<open>u\<close> flag, so they work on code units one by one.
  \<open>js\<close> turns an ASCII literal of this file into such a string.
\<close>

type_synonym unit16 = "16 word"
type_synonym jsstring = "unit16 list"

definition cu :: "char \<Rightarrow> unit16" where
  "cu c = of_nat (of_char c)"

definition js :: "string \<Rightarrow> jsstring" where
  "js s = map cu s"

text \<open>
  Decimal rendering of an integer, as a template literal renders \<^verbatim>\<open>Date.now()\<close>
  (an integer of magnitude below \<open>10\<^sup>2\<^sup>1\<close> prints as its decimal digits, with a
  leading minus sign when negative).
\<close>

definition digit :: "nat \<Rightarrow> unit16" where
  "digit d = of_nat (48 + d)"

fun digits :: "nat \<Rightarrow> jsstring" where
  "digits n = (if n < 10 then [digit n] else digits (n div 10) @ [digit (n mod 10)])"

declare digits.simps [simp del]

definition show_int :: "int \<Rightarrow> jsstring" where
  "show_int i = (if i < 0 then cu CHR ''-'' # digits (nat (- i)) else digits (nat i))"

section \<open>Upload file names (\<^verbatim>\<open>storage.filename\<close>)\<close>

text \<open>
  \<^verbatim>\<open>
  filename: (req, file, cb) => {
    const ts = Date.now();
    const safe = file.originalname.replace(/[^a-zA-Z0-9.\-_]/g, '_');
    cb(null, `${ts}_${safe}`);
  }
  \<close>
  The function is the same in both copies of the server. \<open>safe_char\<close> is the character
  class \<^verbatim>\<open>[a-zA-Z0-9.\-_]\<close>; \<open>sanitize\<close> is the global replace of its complement.
\<close>

definition safe_char :: "unit16 \<Rightarrow> bool" where
  "safe_char u \<longleftrightarrow>
     (cu CHR ''a'' \<le> u \<and> u \<le> cu CHR ''z'') \<or>
     (cu CHR ''A'' \<le> u \<and> u \<le> cu CHR ''Z'') \<or>
     (cu CHR ''0'' \<le> u \<and> u \<le> cu CHR ''9'') \<or>
     u = cu CHR ''.'' \<or> u = cu CHR ''-'' \<or> u = cu CHR ''_''"

definition sanitize :: "jsstring \<Rightarrow> jsstring" where
  "sanitize s = map (\<lambda>u. if safe_char u then u else cu CHR ''_'') s"

definition filename :: "int \<Rightarrow> jsstring \<Rightarrow> jsstring" where
  "filename ts originalname = show_int ts @ js ''_'' @ sanitize originalname"

text \<open>
  The specification's wording of the same function: the characters outside the class
  are stripped, that is removed.
\<close>

definition strip_unsafe :: "jsstring \<Rightarrow> jsstring" where
  "strip_unsafe s = filter safe_char s"

definition filename_spec :: "int \<Rightarrow> jsstring \<Rightarrow> jsstring" where
  "filename_spec ts originalname = show_int ts @ js ''_'' @ strip_unsafe originalname"

section \<open>JavaScript values\<close>

text \<open>
  JavaScript values as far as this program meets them: what a request body, a parsed
  JSON document and the objects built by the handlers can hold. Numbers are the
  integer-valued ones (\<^verbatim>\<open>Date.now()\<close>, file sizes, array lengths). An object is the
  list of its own properties in insertion order.
\<close>

datatype jsval =
    Undefined
  | Null
  | Bool bool
  | Num int
  | Str jsstring
  | Arr "jsval list"
  | Obj "(jsstring \<times> jsval) list"

datatype js_error = TypeError | SyntaxError | IOError

text \<open>Truthiness, and the operator \<^verbatim>\<open>a || b\<close>.\<close>

fun truthy :: "jsval \<Rightarrow> bool" where
  "truthy Undefined = False"
| "truthy Null = False"
| "truthy (Bool b) = b"
| "truthy (Num n) = (n \<noteq> 0)"
| "truthy (Str s) = (s \<noteq> [])"
| "truthy (Arr xs) = True"
| "truthy (Obj kvs) = True"

definition js_or :: "jsval \<Rightarrow> jsval \<Rightarrow> jsval" where
  "js_or a b = (if truthy a then a else b)"

text \<open>
  Reading a property \<^verbatim>\<open>v.k\<close>; the names of an object's properties are distinct.
  Apart from \<^verbatim>\<open>length\<close> (see \<open>js_length\<close>) the program reads only the names \<^verbatim>\<open>company\<close>,
  \<^verbatim>\<open>name\<close>, \<^verbatim>\<open>contactName\<close>, \<^verbatim>\<open>phone\<close>, \<^verbatim>\<open>email\<close>, \<^verbatim>\<open>amount\<close>,
  \<^verbatim>\<open>sector\<close>, \<^verbatim>\<open>message\<close>, \<^verbatim>\<open>id\<close>, \<^verbatim>\<open>receivedAt\<close>, \<^verbatim>\<open>files\<close>, \<^verbatim>\<open>path\<close> and
  \<^verbatim>\<open>originalname\<close> this way; none of them is a property of a string, a number, a
  boolean or an array, so \<open>field\<close> yields \<^verbatim>\<open>undefined\<close> there. On \<^verbatim>\<open>null\<close> and
  \<^verbatim>\<open>undefined\<close> the read throws a \<^verbatim>\<open>TypeError\<close>, which \<open>get_field\<close> returns.
\<close>

fun field :: "jsval \<Rightarrow> jsstring \<Rightarrow> jsval" where
  "field (Obj kvs) k = (case map_of kvs k of None \<Rightarrow> Undefined | Some v \<Rightarrow> v)"
| "field v k = Undefined"

definition get_field :: "jsval \<Rightarrow> jsstring \<Rightarrow> js_error + jsval" where
  "get_field v k = (if v = Undefined \<or> v = Null then Inl TypeError else Inr (field v k))"

text \<open>Sequencing of computations that may throw.\<close>

definition and_then :: "'e + 'a \<Rightarrow> ('a \<Rightarrow> 'e + 'b) \<Rightarrow> 'e + 'b" where
  "and_then m f = (case m of Inl e \<Rightarrow> Inl e | Inr x \<Rightarrow> f x)"

fun map_err :: "('a \<Rightarrow> 'e + 'b) \<Rightarrow> 'a list \<Rightarrow> 'e + 'b list" where
  "map_err f [] = Inr []"
| "map_err f (x # xs) =
     (case f x of
        Inl e \<Rightarrow> Inl e
      | Inr y \<Rightarrow> (case map_err f xs of Inl e \<Rightarrow> Inl e | Inr ys \<Rightarrow> Inr (y # ys)))"

text \<open>
  The conversion to a string that \<^verbatim>\<open>'' + v\<close> and a template literal apply, and
  \<^verbatim>\<open>Array.prototype.join\<close>. An object is converted by its method \<^verbatim>\<open>toString\<close>.
  The values at hand come from JSON and from forms, so a property of their own named
  \<^verbatim>\<open>toString\<close> is no function: the conversion of an object that has one throws a
  \<^verbatim>\<open>TypeError\<close>, and every other object inherits the method that yields
  \<^verbatim>\<open>[object Object]\<close>. An array is converted by joining its elements with commas,
  \<^verbatim>\<open>null\<close> and \<^verbatim>\<open>undefined\<close> counting as empty. A number prints as its decimal
  digits, which is what JavaScript prints below \<open>10\<^sup>2\<^sup>1\<close> in magnitude; the exponent
  notation it uses from there on is not modelled.
\<close>

fun join_with :: "jsstring \<Rightarrow> jsstring list \<Rightarrow> jsstring" where
  "join_with sep [] = []"
| "join_with sep [x] = x"
| "join_with sep (x # y # r) = x @ sep @ join_with sep (y # r)"

fun to_string :: "jsval \<Rightarrow> js_error + jsstring"
  and to_strings :: "jsval list \<Rightarrow> js_error + jsstring list" where
  "to_string Undefined = Inr (js ''undefined'')"
| "to_string Null = Inr (js ''null'')"
| "to_string (Bool b) = Inr (if b then js ''true'' else js ''false'')"
| "to_string (Num n) = Inr (show_int n)"
| "to_string (Str s) = Inr s"
| "to_string (Arr xs) =
     (case to_strings xs of Inl e \<Rightarrow> Inl e | Inr ts \<Rightarrow> Inr (join_with (js '','') ts))"
| "to_string (Obj kvs) =
     (if js ''toString'' \<in> set (map fst kvs) then Inl TypeError
      else Inr (js ''[object Object]''))"
| "to_strings [] = Inr []"
| "to_strings (x # xs) =
     (case (if x = Undefined \<or> x = Null then Inr [] else to_string x) of
        Inl e \<Rightarrow> Inl e
      | Inr t \<Rightarrow> (case to_strings xs of Inl e \<Rightarrow> Inl e | Inr ts \<Rightarrow> Inr (t # ts)))"

section \<open>The runtime and the file system\<close>

text \<open>
  Functions of Node.js that the program calls and does not define are parameters of the
  model: \<^verbatim>\<open>JSON.parse\<close> (\<open>None\<close> when it throws a \<^verbatim>\<open>SyntaxError\<close>),
  \<^verbatim>\<open>JSON.stringify(v, null, 2)\<close>, \<^verbatim>\<open>path.join\<close>, \<^verbatim>\<open>path.basename\<close>,
  \<^verbatim>\<open>new Date(v).toLocaleString()\<close> and the directory \<^verbatim>\<open>UPLOAD_DIR\<close>.
\<close>

record node =
  JSON_parse :: "jsstring \<Rightarrow> jsval option"
  JSON_stringify :: "jsval \<Rightarrow> jsstring"
  path_join :: "jsstring \<Rightarrow> jsstring \<Rightarrow> jsstring"
  path_basename :: "jsstring \<Rightarrow> jsstring"
  toLocaleString :: "jsval \<Rightarrow> jsstring"
  UPLOAD_DIR :: jsstring

text \<open>
  The state of \<^verbatim>\<open>LEADS_FILE\<close>: absent, present but not readable (a directory, a
  permission error), or present with its text. \<open>write_fault\<close> is the environment's
  decision about a write: \<open>None\<close> when it succeeds, \<open>Some st\<close> when it throws and leaves
  the file in state \<open>st\<close>.
\<close>

datatype file_state = Absent | Unreadable | Content jsstring

record fs =
  leads_file :: file_state
  write_fault :: "file_state option"

definition existsSync :: "fs \<Rightarrow> bool" where
  "existsSync s = (leads_file s \<noteq> Absent)"

definition readFileSync :: "fs \<Rightarrow> js_error + jsstring" where
  "readFileSync s = (case leads_file s of Content raw \<Rightarrow> Inr raw | _ \<Rightarrow> Inl IOError)"

definition writeFileSync :: "fs \<Rightarrow> jsstring \<Rightarrow> (js_error + unit) \<times> fs" where
  "writeFileSync s text =
     (case write_fault s of
        None \<Rightarrow> (Inr (), s\<lparr>leads_file := Content text\<rparr>)
      | Some st \<Rightarrow> (Inl IOError, s\<lparr>leads_file := st\<rparr>))"

section \<open>The lead store (\<^verbatim>\<open>readLeads\<close>, \<^verbatim>\<open>saveLead\<close>)\<close>

text \<open>
  \<^verbatim>\<open>
  function readLeads() {
    try {
      if (!fs.existsSync(LEADS_FILE)) return [];
      const raw = fs.readFileSync(LEADS_FILE, 'utf8');
      return JSON.parse(raw || '[]');
    } catch (e) { console.error('readLeads error', e); return []; }
  }
  \<close>
  \<open>readLeads_try\<close> is the body of the \<^verbatim>\<open>try\<close>, \<open>readLeads\<close> adds the \<^verbatim>\<open>catch\<close>.
\<close>

definition readLeads_try :: "node \<Rightarrow> fs \<Rightarrow> js_error + jsval" where
  "readLeads_try rt s =
     (if \<not> existsSync s then Inr (Arr [])
      else and_then (readFileSync s) (\<lambda>raw.
        case JSON_parse rt (if raw = [] then js ''[]'' else raw) of
          None \<Rightarrow> Inl SyntaxError
        | Some v \<Rightarrow> Inr v))"

definition readLeads :: "node \<Rightarrow> fs \<Rightarrow> jsval" where
  "readLeads rt s = (case readLeads_try rt s of Inl e \<Rightarrow> Arr [] | Inr v \<Rightarrow> v)"

text \<open>
  \<^verbatim>\<open>arr.unshift(lead)\<close>: on an array it puts the lead in front; any other value has
  no method \<^verbatim>\<open>unshift\<close>, and the call throws a \<^verbatim>\<open>TypeError\<close>.
\<close>

fun unshift :: "jsval \<Rightarrow> jsval \<Rightarrow> js_error + jsval" where
  "unshift (Arr xs) x = Inr (Arr (x # xs))"
| "unshift v x = Inl TypeError"

text \<open>
  \<^verbatim>\<open>
  const arr = readLeads();
  arr.unshift(lead);
  fs.writeFileSync(LEADS_FILE, JSON.stringify(arr, null, 2));
  \<close>
  In the second copy of the server (\<^verbatim>\<open>part_000\<close>) these three lines are the whole of
  \<^verbatim>\<open>saveLead\<close>, so an exception leaves the function: \<open>saveLead_part0\<close>. In
  \<^verbatim>\<open>server.js\<close> they stand in a \<^verbatim>\<open>try\<close> whose \<^verbatim>\<open>catch\<close> only logs: \<open>saveLead\<close>.
\<close>

definition saveLead_part0 :: "node \<Rightarrow> fs \<Rightarrow> jsval \<Rightarrow> (js_error + unit) \<times> fs" where
  "saveLead_part0 rt s lead =
     (case unshift (readLeads rt s) lead of
        Inl e \<Rightarrow> (Inl e, s)
      | Inr arr \<Rightarrow> writeFileSync s (JSON_stringify rt arr))"

definition saveLead :: "node \<Rightarrow> fs \<Rightarrow> jsval \<Rightarrow> fs" where
  "saveLead rt s lead = snd (saveLead_part0 rt s lead)"

section \<open>HTML escaping and the admin page\<close>

text \<open>
  \<^verbatim>\<open>
  function escapeHtml(str = '') {
    return ('' + str).replace(/[&<>"']/g, s => ({ '&': '&amp;', '<': '&lt;',
      '>': '&gt;', '"': '&quot;', "'": '&#39;' }[s]));
  }
  \<close>
  The default value stands in for an argument that is \<^verbatim>\<open>undefined\<close>. \<open>escape\<close> is
  the replacement on the string, \<open>escapeHtml\<close> the whole function, which throws when
  the conversion of its argument to a string does.
\<close>

definition escape_unit :: "unit16 \<Rightarrow> jsstring" where
  \<open>escape_unit u =
     (if u = cu CHR ''&'' then js ''&amp;''
      else if u = cu CHR ''<'' then js ''&lt;''
      else if u = cu CHR ''>'' then js ''&gt;''
      else if u = cu CHR ''"'' then js ''&quot;''
      else if u = cu CHR 0x27 then js ''&#39;''
      else [u])\<close>

definition escape :: "jsstring \<Rightarrow> jsstring" where
  "escape s = concat (map escape_unit s)"

definition escapeHtml :: "jsval \<Rightarrow> js_error + jsstring" where
  "escapeHtml str =
     and_then (to_string (if str = Undefined then Str [] else str)) (\<lambda>s. Inr (escape s))"

text \<open>
  The link of one uploaded file, and the cell with all links of a lead:
  \<^verbatim>\<open>
  (l.files || []).map(f => `<a class="file" href="/${escapeHtml(f.path)}"
     target="_blank">${escapeHtml(f.originalname)}</a>`).join(' ')
  \<close>
  A value of \<^verbatim>\<open>l.files\<close> that is truthy and no array has no method \<^verbatim>\<open>map\<close>.
\<close>

definition file_link :: "jsval \<Rightarrow> js_error + jsstring" where
  \<open>file_link f =
     and_then (get_field f (js ''path'')) (\<lambda>p.
     and_then (escapeHtml p) (\<lambda>href.
     and_then (get_field f (js ''originalname'')) (\<lambda>n.
     and_then (escapeHtml n) (\<lambda>label.
       Inr (js ''<a class="file" href="/'' @ href @ js ''" target="_blank">'' @
            label @ js ''</a>'')))))\<close>

definition filesHtml :: "jsval \<Rightarrow> js_error + jsstring" where
  "filesHtml l =
     and_then (get_field l (js ''files'')) (\<lambda>fv.
       case js_or fv (Arr []) of
         Arr fs \<Rightarrow> and_then (map_err file_link fs) (\<lambda>links. Inr (join_with (js '' '') links))
       | _ \<Rightarrow> Inl TypeError)"

text \<open>
  One row of the table:
  \<^verbatim>\<open>
  html += `<tr><td>${escapeHtml(new Date(l.receivedAt).toLocaleString())}</td>
    <td>${escapeHtml(l.company)}</td><td>${escapeHtml(l.contactName)}</td>
    <td>${escapeHtml(l.email)}</td><td>${escapeHtml(l.phone)}</td>
    <td>${escapeHtml(l.amount)}</td><td>${filesHtml}</td></tr>`;
  \<close>
  (one line in the source). Once \<^verbatim>\<open>l.files\<close> has been read, \<^verbatim>\<open>l\<close> is neither
  \<^verbatim>\<open>null\<close> nor \<^verbatim>\<open>undefined\<close>, and the other reads cannot throw. The
  interpolations are evaluated from left to right. \<^verbatim>\<open>new Date(v)\<close> converts an
  array or an object to a primitive value first, which throws where \<open>to_string\<close>
  does; what the date then prints is the runtime's.
\<close>

definition date_text :: "node \<Rightarrow> jsval \<Rightarrow> js_error + jsval" where
  "date_text rt v =
     (case v of
        Arr xs \<Rightarrow> and_then (to_string v) (\<lambda>s. Inr (Str (toLocaleString rt v)))
      | Obj kvs \<Rightarrow> and_then (to_string v) (\<lambda>s. Inr (Str (toLocaleString rt v)))
      | _ \<Rightarrow> Inr (Str (toLocaleString rt v)))"

definition admin_row :: "node \<Rightarrow> jsval \<Rightarrow> js_error + jsstring" where
  "admin_row rt l =
     and_then (filesHtml l) (\<lambda>links.
     and_then (date_text rt (field l (js ''receivedAt''))) (\<lambda>d.
     and_then (escapeHtml d) (\<lambda>received.
     and_then (escapeHtml (field l (js ''company''))) (\<lambda>company.
     and_then (escapeHtml (field l (js ''contactName''))) (\<lambda>contact.
     and_then (escapeHtml (field l (js ''email''))) (\<lambda>email.
     and_then (escapeHtml (field l (js ''phone''))) (\<lambda>phone.
     and_then (escapeHtml (field l (js ''amount''))) (\<lambda>amount.
       Inr (js ''<tr><td>'' @ received @
            js ''</td><td>'' @ company @
            js ''</td><td>'' @ contact @
            js ''</td><td>'' @ email @
            js ''</td><td>'' @ phone @
            js ''</td><td>'' @ amount @
            js ''</td><td>'' @ links @ js ''</td></tr>'')))))))))"

text \<open>
  \<^verbatim>\<open>leads.length\<close> and \<^verbatim>\<open>for (const l of leads)\<close>, for whatever \<^verbatim>\<open>readLeads\<close>
  returned: an array has its length and its elements, a string has its number of code
  units and is iterated by code points (a surrogate pair is one element), \<^verbatim>\<open>null\<close>
  has no properties, an object has the length it may hold as a property of that name, a
  number or a boolean has none, and none of the last three is iterable.
\<close>

fun js_length :: "jsval \<Rightarrow> js_error + jsval" where
  "js_length (Arr xs) = Inr (Num (int (length xs)))"
| "js_length (Str s) = Inr (Num (int (length s)))"
| "js_length Undefined = Inl TypeError"
| "js_length Null = Inl TypeError"
| "js_length (Obj kvs) = Inr (field (Obj kvs) (js ''length''))"
| "js_length v = Inr Undefined"

definition high_surrogate :: "unit16 \<Rightarrow> bool" where
  "high_surrogate u \<longleftrightarrow> 0xD800 \<le> u \<and> u \<le> 0xDBFF"

definition low_surrogate :: "unit16 \<Rightarrow> bool" where
  "low_surrogate u \<longleftrightarrow> 0xDC00 \<le> u \<and> u \<le> 0xDFFF"

fun code_points :: "jsstring \<Rightarrow> jsstring list" where
  "code_points (a # b # r) =
     (if high_surrogate a \<and> low_surrogate b then [a, b] # code_points r
      else [a] # code_points (b # r))"
| "code_points [a] = [[a]]"
| "code_points [] = []"

fun iterate :: "jsval \<Rightarrow> js_error + jsval list" where
  "iterate (Arr xs) = Inr xs"
| "iterate (Str s) = Inr (map Str (code_points s))"
| "iterate v = Inl TypeError"

text \<open>
  The page of \<^verbatim>\<open>GET /admin\<close>. The head of the page is a template literal of four
  source lines; its only interpolation is \<^verbatim>\<open>${leads.length}\<close>.
\<close>

definition admin_head :: jsstring where
  \<open>admin_head =
     js ''<!doctype html><html><head><meta charset="utf-8"><title>Avalonic Admin</title>'' @
     [0x0A] @
     js ''  <meta name="viewport" content="width=device-width,initial-scale=1" />'' @
     [0x0A] @
     js ''  <style>body{font-family:Arial,Helvetica,sans-serif;color:#0b2545;padding:18px}'' @
     js ''table{width:100%;border-collapse:collapse}'' @
     js ''th,td{padding:8px;border-bottom:1px solid #eee;text-align:left}'' @
     js ''th{background:#f6fbff}'' @
     js ''a.file{display:inline-block;margin-right:6px;padding:4px;'' @
     js ''border:1px solid #eef6ff;border-radius:6px;text-decoration:none;color:#0b2545}'' @
     js ''</style>'' @
     [0x0A] @
     js ''  </head><body><h1>Avalonic Cornwell Funding '' @ [0x2014] @
     js '' Admin</h1><p>Total leads: ''\<close>

definition admin_columns :: jsstring where
  \<open>admin_columns =
     js ''</p><table><thead><tr><th>Date</th><th>Company</th><th>Contact</th>'' @
     js ''<th>Email</th><th>Phone</th><th>Amount</th><th>Files</th></tr></thead><tbody>''\<close>

definition admin_foot :: jsstring where
  "admin_foot = js ''</tbody></table></body></html>''"

definition admin_html :: "node \<Rightarrow> jsval \<Rightarrow> js_error + jsstring" where
  "admin_html rt leads =
     and_then (js_length leads) (\<lambda>n.
     and_then (to_string n) (\<lambda>shown.
     and_then (iterate leads) (\<lambda>ls.
     and_then (map_err (admin_row rt) ls) (\<lambda>rows.
       Inr (admin_head @ shown @ admin_columns @ concat rows @ admin_foot)))))"

section \<open>Requests, responses and the routes\<close>

text \<open>
  A response: its status, the headers the program sets itself, and what was sent -- by
  \<^verbatim>\<open>res.json\<close>, by \<^verbatim>\<open>res.send\<close>, or the page of the framework's own error handler.
  A response the program never gave a status has status 200.
\<close>

datatype payload = Json jsval | Sent jsstring | ErrorPage

record response =
  status :: nat
  headers :: "(jsstring \<times> jsstring) list"
  payload :: payload

text \<open>
  The program installs no error-handling middleware. An exception that leaves a route
  handler, and an error that a middleware passes to \<^verbatim>\<open>next\<close>, reach the default error
  handler of Express, which answers with status 500 unless the error object carries a
  status of its own; neither a \<^verbatim>\<open>TypeError\<close> nor a multer error does.
\<close>

definition express_error :: response where
  "express_error = \<lparr>status = 500, headers = [], payload = ErrorPage\<rparr>"

definition or_express_error :: "'e + response \<Rightarrow> response" where
  "or_express_error r = (case r of Inl e \<Rightarrow> express_error | Inr x \<Rightarrow> x)"

subsection \<open>Basic authentication (\<^verbatim>\<open>requireAuth\<close>)\<close>

text \<open>
  \<^verbatim>\<open>
  function requireAuth(req, res, next) {
    const user = basicAuth(req);
    const adminUser = process.env.ADMIN_USER || 'admin';
    const adminPass = process.env.ADMIN_PASS || 'password';
    if (!user || user.name !== adminUser || user.pass !== adminPass) {
      res.set('WWW-Authenticate', 'Basic realm="Admin"');
      return res.status(401).send('Authentication required.');
    }
    next();
  }
  \<close>
  \<open>credentials\<close> is what \<^verbatim>\<open>basicAuth(req)\<close> returns: \<open>None\<close> for \<^verbatim>\<open>undefined\<close> (no
  or malformed \<^verbatim>\<open>Authorization\<close> header), otherwise name and password. An
  environment variable is unset (\<open>None\<close>) or a string. \<open>requireAuth\<close> returns the
  response it sent, or \<open>None\<close> when it called \<^verbatim>\<open>next()\<close>.
\<close>

record environment =
  ADMIN_USER :: "jsstring option"
  ADMIN_PASS :: "jsstring option"

definition env_or :: "jsstring option \<Rightarrow> jsstring \<Rightarrow> jsstring" where
  "env_or v d = (case v of None \<Rightarrow> d | Some s \<Rightarrow> if s = [] then d else s)"

definition adminUser :: "environment \<Rightarrow> jsstring" where
  "adminUser env = env_or (ADMIN_USER env) (js ''admin'')"

definition adminPass :: "environment \<Rightarrow> jsstring" where
  "adminPass env = env_or (ADMIN_PASS env) (js ''password'')"

definition unauthorized :: response where
  \<open>unauthorized =
     \<lparr>status = 401,
      headers = [(js ''WWW-Authenticate'', js ''Basic realm="Admin"'')],
      payload = Sent (js ''Authentication required.'')\<rparr>\<close>

definition requireAuth :: "environment \<Rightarrow> (jsstring \<times> jsstring) option \<Rightarrow> response option" where
  "requireAuth env credentials =
     (case credentials of
        None \<Rightarrow> Some unauthorized
      | Some (name, pass) \<Rightarrow>
          if name \<noteq> adminUser env \<or> pass \<noteq> adminPass env then Some unauthorized else None)"

subsection \<open>The admin routes\<close>

text \<open>
  \<^verbatim>\<open>
  app.get('/admin', requireAuth, (req, res) => { const leads = readLeads(); ...
    res.send(html); });
  app.get('/api/leads', requireAuth, (req, res) => {
    const leads = readLeads();
    res.json({ ok: true, total: leads.length, leads });
  });
  \<close>
  A route runs its handler only when \<^verbatim>\<open>requireAuth\<close> called \<^verbatim>\<open>next()\<close>.
\<close>

definition admin_handler :: "node \<Rightarrow> fs \<Rightarrow> response" where
  "admin_handler rt s =
     or_express_error
       (and_then (admin_html rt (readLeads rt s)) (\<lambda>html.
          Inr \<lparr>status = 200, headers = [], payload = Sent html\<rparr>))"

definition leads_handler :: "node \<Rightarrow> fs \<Rightarrow> response" where
  "leads_handler rt s =
     or_express_error
       (and_then (js_length (readLeads rt s)) (\<lambda>n.
          Inr \<lparr>status = 200, headers = [],
               payload = Json (Obj [(js ''ok'', Bool True), (js ''total'', n),
                                    (js ''leads'', readLeads rt s)])\<rparr>))"

definition get_admin ::
  "environment \<Rightarrow> node \<Rightarrow> (jsstring \<times> jsstring) option \<Rightarrow> fs \<Rightarrow> response" where
  "get_admin env rt credentials s =
     (case requireAuth env credentials of Some r \<Rightarrow> r | None \<Rightarrow> admin_handler rt s)"

definition get_api_leads ::
  "environment \<Rightarrow> node \<Rightarrow> (jsstring \<times> jsstring) option \<Rightarrow> fs \<Rightarrow> response" where
  "get_api_leads env rt credentials s =
     (case requireAuth env credentials of Some r \<Rightarrow> r | None \<Rightarrow> leads_handler rt s)"

subsection \<open>The upload middleware\<close>

text \<open>
  A file part of a multipart request, in the order of the request: the name of its form
  field, the file's original name, its declared type, its number of bytes, and the
  reading of \<^verbatim>\<open>Date.now()\<close> at the moment its name on disk is chosen.
\<close>

record part =
  fieldname :: jsstring
  originalname :: jsstring
  mimetype :: jsstring
  bytes :: nat
  stored_at :: int

text \<open>
  The limits and the file strategy are the program's; the check itself is multer's and
  is modelled after its documentation. Files are taken in the order of the request. The
  limit \<^verbatim>\<open>files\<close> refuses a file when that many have been taken already
  (\<^verbatim>\<open>LIMIT_FILE_COUNT\<close>); \<^verbatim>\<open>upload.array(name, max)\<close> refuses a file of another
  field, or one beyond \<open>max\<close> (\<^verbatim>\<open>LIMIT_UNEXPECTED_FILE\<close>), and \<^verbatim>\<open>upload.any()\<close>
  refuses none; the limit \<^verbatim>\<open>fileSize\<close> refuses a file of more bytes
  (\<^verbatim>\<open>LIMIT_FILE_SIZE\<close>). The first refusal ends the request with that error.
  \<^verbatim>\<open>
  limits: { fileSize: 10 * 1024 * 1024, files: 5 }   with upload.any()                (server.js)
  limits: { fileSize: 10 * 1024 * 1024 }             with upload.array('statements', 5)  (part_000)
  \<close>
\<close>

datatype multer_error = LIMIT_FILE_SIZE | LIMIT_FILE_COUNT | LIMIT_UNEXPECTED_FILE

datatype strategy = AnyField | ArrayField jsstring nat

record limits =
  fileSize :: nat
  files :: "nat option"

definition upload_limits :: limits where
  "upload_limits = \<lparr>fileSize = 10 * 1024 * 1024, files = Some 5\<rparr>"

definition upload_limits_part0 :: limits where
  "upload_limits_part0 = \<lparr>fileSize = 10 * 1024 * 1024, files = None\<rparr>"

fun expected :: "strategy \<Rightarrow> nat \<Rightarrow> part \<Rightarrow> bool" where
  "expected AnyField n p = True"
| "expected (ArrayField name maxCount) n p = (fieldname p = name \<and> n < maxCount)"

fun multer :: "limits \<Rightarrow> strategy \<Rightarrow> nat \<Rightarrow> part list \<Rightarrow> multer_error + part list" where
  "multer lim st n [] = Inr []"
| "multer lim st n (p # ps) =
     (if (case files lim of None \<Rightarrow> False | Some m \<Rightarrow> m \<le> n) then Inl LIMIT_FILE_COUNT
      else if \<not> expected st n p then Inl LIMIT_UNEXPECTED_FILE
      else if fileSize lim < bytes p then Inl LIMIT_FILE_SIZE
      else and_then (multer lim st (Suc n) ps) (\<lambda>qs. Inr (p # qs)))"

text \<open>
  What the disk storage makes of an accepted part: the object in \<^verbatim>\<open>req.files\<close>, of
  which the handler reads \<^verbatim>\<open>path\<close>, \<^verbatim>\<open>originalname\<close>, \<^verbatim>\<open>mimetype\<close> and
  \<^verbatim>\<open>size\<close>. The path is \<^verbatim>\<open>UPLOAD_DIR\<close> joined with the name \<open>filename\<close> chose.
\<close>

record upload =
  up_path :: jsstring
  up_originalname :: jsstring
  up_mimetype :: jsstring
  up_size :: nat

definition store_part :: "node \<Rightarrow> part \<Rightarrow> upload" where
  "store_part rt p =
     \<lparr>up_path = path_join rt (UPLOAD_DIR rt) (filename (stored_at p) (originalname p)),
      up_originalname = originalname p,
      up_mimetype = mimetype p,
      up_size = bytes p\<rparr>"

subsection \<open>The submission handler\<close>

text \<open>
  \<^verbatim>\<open>
  const files = (req.files || []).map(f => ({
    path: path.join('uploads', path.basename(f.path)).replace(/\\/g, '/'),
    originalname: f.originalname, mimetype: f.mimetype, size: f.size }));
  \<close>
\<close>

definition slashes :: "jsstring \<Rightarrow> jsstring" where
  "slashes s = map (\<lambda>u. if u = 0x5C then cu CHR ''/'' else u) s"

definition file_entry :: "node \<Rightarrow> upload \<Rightarrow> jsval" where
  "file_entry rt f =
     Obj [(js ''path'', Str (slashes (path_join rt (js ''uploads'') (path_basename rt (up_path f))))),
          (js ''originalname'', Str (up_originalname f)),
          (js ''mimetype'', Str (up_mimetype f)),
          (js ''size'', Num (int (up_size f)))]"

text \<open>
  \<^verbatim>\<open>
  const lead = {
    id: Date.now(),
    receivedAt: new Date().toISOString(),
    company: body.company || '',
    contactName: body.name || body.contactName || '',
    phone: body.phone || '', email: body.email || '', amount: body.amount || '',
    sector: body.sector || '', message: body.message || '',
    files
  };
  \<close>
  \<open>now\<close> is the reading of \<^verbatim>\<open>Date.now()\<close> and \<open>stamp\<close> the text of
  \<^verbatim>\<open>new Date().toISOString()\<close>. \<^verbatim>\<open>body\<close> is truthy here (it is
  \<^verbatim>\<open>req.body || {}\<close>), so its properties are read with \<open>field\<close>. In \<^verbatim>\<open>part_000\<close>
  the contact is \<^verbatim>\<open>body.name || ''\<close>: \<open>make_lead_part0\<close>.
\<close>

definition make_lead :: "int \<Rightarrow> jsstring \<Rightarrow> jsval \<Rightarrow> jsval list \<Rightarrow> jsval" where
  "make_lead now stamp body fls =
     Obj [(js ''id'', Num now),
          (js ''receivedAt'', Str stamp),
          (js ''company'', js_or (field body (js ''company'')) (Str [])),
          (js ''contactName'',
             js_or (js_or (field body (js ''name'')) (field body (js ''contactName''))) (Str [])),
          (js ''phone'', js_or (field body (js ''phone'')) (Str [])),
          (js ''email'', js_or (field body (js ''email'')) (Str [])),
          (js ''amount'', js_or (field body (js ''amount'')) (Str [])),
          (js ''sector'', js_or (field body (js ''sector'')) (Str [])),
          (js ''message'', js_or (field body (js ''message'')) (Str [])),
          (js ''files'', Arr fls)]"

definition make_lead_part0 :: "int \<Rightarrow> jsstring \<Rightarrow> jsval \<Rightarrow> jsval list \<Rightarrow> jsval" where
  "make_lead_part0 now stamp body fls =
     Obj [(js ''id'', Num now),
          (js ''receivedAt'', Str stamp),
          (js ''company'', js_or (field body (js ''company'')) (Str [])),
          (js ''contactName'', js_or (field body (js ''name'')) (Str [])),
          (js ''phone'', js_or (field body (js ''phone'')) (Str [])),
          (js ''email'', js_or (field body (js ''email'')) (Str [])),
          (js ''amount'', js_or (field body (js ''amount'')) (Str [])),
          (js ''sector'', js_or (field body (js ''sector'')) (Str [])),
          (js ''message'', js_or (field body (js ''message'')) (Str [])),
          (js ''files'', Arr fls)]"

text \<open>
  The handler of \<^verbatim>\<open>POST /api/submit\<close>:
  \<^verbatim>\<open>
  try {
    const body = req.body || {};
    const files = ...; const lead = ...;
    saveLead(lead);
    ... (the e-mail notification)
    return res.json({ ok: true, id: lead.id });
  } catch (err) {
    return res.status(500).json({ ok: false, message: 'Server error' });
  }
  \<close>
  The notification runs in an asynchronous function that is not awaited and catches
  its own errors; it touches neither the response nor the store and is left out.
  \<open>submit_try\<close> is the body of the \<^verbatim>\<open>try\<close>; in \<^verbatim>\<open>server.js\<close> nothing in it can
  throw, because \<open>saveLead\<close> catches everything. \<open>submit_part0\<close> is the handler of
  \<^verbatim>\<open>part_000\<close>, whose \<^verbatim>\<open>saveLead\<close> can throw.
\<close>

definition ok_response :: "jsval \<Rightarrow> response" where
  "ok_response lead =
     \<lparr>status = 200, headers = [],
      payload = Json (Obj [(js ''ok'', Bool True), (js ''id'', field lead (js ''id''))])\<rparr>"

definition server_error :: response where
  "server_error =
     \<lparr>status = 500, headers = [],
      payload = Json (Obj [(js ''ok'', Bool False), (js ''message'', Str (js ''Server error''))])\<rparr>"

definition submit_try ::
  "node \<Rightarrow> int \<Rightarrow> jsstring \<Rightarrow> jsval \<Rightarrow> upload list \<Rightarrow> fs \<Rightarrow> (js_error + response) \<times> fs" where
  "submit_try rt now stamp req_body req_files s =
     (let body = js_or req_body (Obj []);
          fls = map (file_entry rt) req_files;
          lead = make_lead now stamp body fls;
          s' = saveLead rt s lead
      in (Inr (ok_response lead), s'))"

definition submit ::
  "node \<Rightarrow> int \<Rightarrow> jsstring \<Rightarrow> jsval \<Rightarrow> upload list \<Rightarrow> fs \<Rightarrow> response \<times> fs" where
  "submit rt now stamp req_body req_files s =
     (case submit_try rt now stamp req_body req_files s of
        (Inl e, s') \<Rightarrow> (server_error, s')
      | (Inr r, s') \<Rightarrow> (r, s'))"

definition submit_try_part0 ::
  "node \<Rightarrow> int \<Rightarrow> jsstring \<Rightarrow> jsval \<Rightarrow> upload list \<Rightarrow> fs \<Rightarrow> (js_error + response) \<times> fs" where
  "submit_try_part0 rt now stamp req_body req_files s =
     (let body = js_or req_body (Obj []);
          fls = map (file_entry rt) req_files;
          lead = make_lead_part0 now stamp body fls
      in case saveLead_part0 rt s lead of
           (Inl e, s') \<Rightarrow> (Inl e, s')
         | (Inr u, s') \<Rightarrow> (Inr (ok_response lead), s'))"

definition submit_part0 ::
  "node \<Rightarrow> int \<Rightarrow> jsstring \<Rightarrow> jsval \<Rightarrow> upload list \<Rightarrow> fs \<Rightarrow> response \<times> fs" where
  "submit_part0 rt now stamp req_body req_files s =
     (case submit_try_part0 rt now stamp req_body req_files s of
        (Inl e, s') \<Rightarrow> (server_error, s')
      | (Inr r, s') \<Rightarrow> (r, s'))"

text \<open>
  The route: \<^verbatim>\<open>app.post('/api/submit', upload.any(), handler)\<close> in \<^verbatim>\<open>server.js\<close>,
  \<^verbatim>\<open>app.post('/api/submit', upload.array('statements', 5), handler)\<close> in \<^verbatim>\<open>part_000\<close>.
  The handler runs only when the middleware accepted every file.
\<close>

definition post_submit ::
  "node \<Rightarrow> int \<Rightarrow> jsstring \<Rightarrow> jsval \<Rightarrow> part list \<Rightarrow> fs \<Rightarrow> response \<times> fs" where
  "post_submit rt now stamp req_body parts s =
     (case multer upload_limits AnyField 0 parts of
        Inl e \<Rightarrow> (express_error, s)
      | Inr accepted \<Rightarrow> submit rt now stamp req_body (map (store_part rt) accepted) s)"

definition post_submit_part0 ::
  "node \<Rightarrow> int \<Rightarrow> jsstring \<Rightarrow> jsval \<Rightarrow> part list \<Rightarrow> fs \<Rightarrow> response \<times> fs" where
  "post_submit_part0 rt now stamp req_body parts s =
     (case multer upload_limits_part0 (ArrayField (js ''statements'') 5) 0 parts of
        Inl e \<Rightarrow> (express_error, s)
      | Inr accepted \<Rightarrow> submit_part0 rt now stamp req_body (map (store_part rt) accepted) s)"

section \<open>Notions used in the statements\<close>

text \<open>\<^verbatim>\<open>Object.keys\<close>: the names of the properties of an object, in order.\<close>

fun keys :: "jsval \<Rightarrow> jsstring list" where
  "keys (Obj kvs) = map fst kvs"
| "keys v = []"

text \<open>
  The specification's wording of the form part of a lead: each known field is taken
  from the form field of the same name, and is the empty string when the body has no
  such field.
\<close>

definition known_fields :: "jsstring list" where
  "known_fields = [js ''company'', js ''contactName'', js ''phone'', js ''email'',
                   js ''amount'', js ''sector'', js ''message'']"

definition form_fields_spec :: "jsval \<Rightarrow> (jsstring \<times> jsval) list" where
  "form_fields_spec body =
     map (\<lambda>k. (k, if field body k = Undefined then Str [] else field body k)) known_fields"

text \<open>The form fields the handler of \<^verbatim>\<open>server.js\<close> reads.\<close>

definition read_fields :: "jsstring list" where
  "read_fields = js ''name'' # known_fields"

text \<open>
  The characters that open or close markup in HTML text and attribute values, and the
  five character references \<^verbatim>\<open>escapeHtml\<close> produces. \<open>references_only\<close> holds of a
  text in which every ampersand starts one of these references.
\<close>

definition markup :: "unit16 \<Rightarrow> bool" where
  \<open>markup u \<longleftrightarrow> u = cu CHR ''<'' \<or> u = cu CHR ''>'' \<or> u = cu CHR ''"'' \<or> u = cu CHR 0x27\<close>

definition references :: "jsstring list" where
  "references = [js ''amp;'', js ''lt;'', js ''gt;'', js ''quot;'', js ''#39;'']"

definition starts_reference :: "jsstring \<Rightarrow> bool" where
  "starts_reference r = list_ex (\<lambda>e. take (length e) r = e) references"

fun references_only :: "jsstring \<Rightarrow> bool" where
  "references_only [] = True"
| "references_only (u # r) =
     ((if u = cu CHR ''&'' then starts_reference r else True) \<and> references_only r)"

text \<open>
  The markup of a table row that has \<open>n\<close> file links and no content, and the number of
  file links the row of a lead has.
\<close>

definition link_skeleton :: jsstring where
  \<open>link_skeleton = js ''<a class="file" href="/'' @ js ''" target="_blank">'' @ js ''</a>''\<close>

definition row_skeleton :: "nat \<Rightarrow> jsstring" where
  "row_skeleton n =
     js ''<tr><td>'' @ js ''</td><td>'' @ js ''</td><td>'' @ js ''</td><td>'' @
     js ''</td><td>'' @ js ''</td><td>'' @ js ''</td><td>'' @
     join_with (js '' '') (replicate n link_skeleton) @ js ''</td></tr>''"

definition file_count :: "jsval \<Rightarrow> nat" where
  "file_count l = (case js_or (field l (js ''files'')) (Arr []) of Arr fs \<Rightarrow> length fs | _ \<Rightarrow> 0)"

section \<open>An example runtime\<close>

text \<open>
  A lead, the text \<^verbatim>\<open>JSON.stringify([lead], null, 2)\<close> of the store that holds it
  alone, and a runtime that agrees with Node.js on the texts and values of the examples
  below (on a POSIX system, in the locale \<^verbatim>\<open>en-US\<close> and the time zone UTC).
\<close>

definition example_stamp :: jsstring where
  "example_stamp = js ''2023-11-14T22:13:20.000Z''"

definition example_lead :: jsval where
  "example_lead =
     make_lead 1700000000000 example_stamp (Obj [(js ''company'', Str (js ''Acme''))]) []"

definition example_text :: jsstring where
  \<open>example_text =
     js ''['' @ [0x0A] @
     js ''  {'' @ [0x0A] @
     js ''    "id": 1700000000000,'' @ [0x0A] @
     js ''    "receivedAt": "2023-11-14T22:13:20.000Z",'' @ [0x0A] @
     js ''    "company": "Acme",'' @ [0x0A] @
     js ''    "contactName": "",'' @ [0x0A] @
     js ''    "phone": "",'' @ [0x0A] @
     js ''    "email": "",'' @ [0x0A] @
     js ''    "amount": "",'' @ [0x0A] @
     js ''    "sector": "",'' @ [0x0A] @
     js ''    "message": "",'' @ [0x0A] @
     js ''    "files": []'' @ [0x0A] @
     js ''  }'' @ [0x0A] @
     js '']''\<close>

definition example_part :: "nat \<Rightarrow> part" where
  "example_part n =
     \<lparr>fieldname = js ''statements'', originalname = js ''bank statement.pdf'',
      mimetype = js ''application/pdf'', bytes = n, stored_at = 1700000000000\<rparr>"

text \<open>
  Two later leads, and the texts of the store that holds the second before the first,
  and the third before both.
\<close>

definition example_lead2 :: jsval where
  "example_lead2 =
     make_lead 1700000000500 (js ''2023-11-14T22:13:20.500Z'')
       (Obj [(js ''company'', Str (js ''Bolt''))]) []"

definition example_lead3 :: jsval where
  "example_lead3 =
     make_lead 1700000001000 (js ''2023-11-14T22:13:21.000Z'')
       (Obj [(js ''company'', Str (js ''Cove''))]) []"

definition example_object :: "string \<Rightarrow> string \<Rightarrow> string \<Rightarrow> jsstring" where
  \<open>example_object ident stamp company =
     js ''  {'' @ [0x0A] @
     js ''    "id": '' @ js ident @ js '','' @ [0x0A] @
     js ''    "receivedAt": "'' @ js stamp @ js ''",'' @ [0x0A] @
     js ''    "company": "'' @ js company @ js ''",'' @ [0x0A] @
     js ''    "contactName": "",'' @ [0x0A] @
     js ''    "phone": "",'' @ [0x0A] @
     js ''    "email": "",'' @ [0x0A] @
     js ''    "amount": "",'' @ [0x0A] @
     js ''    "sector": "",'' @ [0x0A] @
     js ''    "message": "",'' @ [0x0A] @
     js ''    "files": []'' @ [0x0A] @
     js ''  }''\<close>

definition example_text2 :: jsstring where
  "example_text2 =
     js ''['' @ [0x0A] @
     example_object ''1700000000500'' ''2023-11-14T22:13:20.500Z'' ''Bolt'' @ js '','' @ [0x0A] @
     example_object ''1700000000000'' ''2023-11-14T22:13:20.000Z'' ''Acme'' @ [0x0A] @
     js '']''"

definition example_text3 :: jsstring where
  "example_text3 =
     js ''['' @ [0x0A] @
     example_object ''1700000001000'' ''2023-11-14T22:13:21.000Z'' ''Cove'' @ js '','' @ [0x0A] @
     example_object ''1700000000500'' ''2023-11-14T22:13:20.500Z'' ''Bolt'' @ js '','' @ [0x0A] @
     example_object ''1700000000000'' ''2023-11-14T22:13:20.000Z'' ''Acme'' @ [0x0A] @
     js '']''"

definition example_parse :: "jsstring \<Rightarrow> jsval option" where
  "example_parse raw =
     (if raw = js ''[]'' then Some (Arr [])
      else if raw = js ''{}'' then Some (Obj [])
      else if raw = example_text then Some (Arr [example_lead])
      else if raw = example_text2 then Some (Arr [example_lead2, example_lead])
      else if raw = example_text3 then Some (Arr [example_lead3, example_lead2, example_lead])
      else None)"

definition example_stringify :: "jsval \<Rightarrow> jsstring" where
  "example_stringify v =
     (if v = Arr [example_lead] then example_text
      else if v = Arr [] then js ''[]''
      else if v = Obj [] then js ''{}''
      else if v = Arr [example_lead2, example_lead] then example_text2
      else if v = Arr [example_lead3, example_lead2, example_lead] then example_text3
      else js ''null'')"

definition example_basename :: "jsstring \<Rightarrow> jsstring" where
  "example_basename p = rev (takeWhile (\<lambda>u. u \<noteq> cu CHR ''/'') (rev p))"

definition example_node :: node where
  "example_node =
     \<lparr>JSON_parse = example_parse,
      JSON_stringify = example_stringify,
      path_join = (\<lambda>a b. a @ js ''/'' @ b),
      path_basename = example_basename,
      toLocaleString = (\<lambda>v. if v = Str example_stamp then js ''11/14/2023, 10:13:20 PM''
                             else js ''Invalid Date''),
      UPLOAD_DIR = js ''/srv/app/uploads''\<rparr>"

section \<open>Properties of the upload file names\<close>

lemma unat_digit: "d < 10 \<Longrightarrow> unat (digit d) = 48 + d"
  unfolding digit_def by (simp only: unat_of_nat) simp

lemma digit_safe: "d < 10 \<Longrightarrow> safe_char (digit d)"
proof -
  assume d: "d < 10"
  have "cu CHR ''0'' \<le> digit d \<and> digit d \<le> cu CHR ''9''"
    using d by (simp add: word_le_nat_alt unat_digit cu_def)
  then show ?thesis
    unfolding safe_char_def by blast
qed

lemma digits_safe: "u \<in> set (digits n) \<Longrightarrow> safe_char u"
proof (induction n arbitrary: u rule: digits.induct)
  case (1 n)
  show ?case
  proof (cases "n < 10")
    case True
    with "1.prems" show ?thesis
      by (simp add: digits.simps [of n] digit_safe)
  next
    case False
    with "1.prems" have "u \<in> set (digits (n div 10)) \<or> u = digit (n mod 10)"
      by (auto simp: digits.simps [of n])
    then show ?thesis
      using "1.IH" [OF False] digit_safe [of "n mod 10"] by auto
  qed
qed

lemma safe_minus: "safe_char (cu CHR ''-'')"
  by (simp add: safe_char_def)

lemma safe_underscore: "safe_char (cu CHR ''_'')"
  by (simp add: safe_char_def)

lemma show_int_safe: "u \<in> set (show_int i) \<Longrightarrow> safe_char u"
  by (auto simp: show_int_def digits_safe safe_minus split: if_splits)

lemma sanitize_safe: "u \<in> set (sanitize s) \<Longrightarrow> safe_char u"
  by (auto simp: sanitize_def safe_underscore)

lemma show_int_example: "show_int 1700000000000 = js ''1700000000000''"
  by (simp add: show_int_def digits.simps js_def cu_def digit_def)

text \<open>
  Claim C2, as amended. The stored name is the decimal clock reading, an underscore and
  the original name in which every code unit outside \<^verbatim>\<open>[A-Za-z0-9.\-_]\<close> is
  replaced by an underscore (not removed): the sanitised name has the length of the
  original, agrees with it at every position that holds a character of the class and
  holds an underscore at every other position, and the whole stored name consists of
  characters of the class only.
\<close>

theorem filename_replaces_unsafe:
  "filename ts name = show_int ts @ js ''_'' @ sanitize name \<and>
   length (sanitize name) = length name \<and>
   (\<forall>i < length name.
      sanitize name ! i = (if safe_char (name ! i) then name ! i else cu CHR ''_'')) \<and>
   (\<forall>u \<in> set (filename ts name). safe_char u)"
proof (intro conjI)
  show "filename ts name = show_int ts @ js ''_'' @ sanitize name"
    by (simp only: filename_def)
  show "length (sanitize name) = length name"
    by (simp add: sanitize_def)
  show "\<forall>i < length name.
      sanitize name ! i = (if safe_char (name ! i) then name ! i else cu CHR ''_'')"
    by (simp add: sanitize_def)
  show "\<forall>u \<in> set (filename ts name). safe_char u"
  proof
    fix u
    assume "u \<in> set (filename ts name)"
    then consider "u \<in> set (show_int ts)" | "u = cu CHR ''_''" | "u \<in> set (sanitize name)"
      unfolding filename_def js_def by auto
    then show "safe_char u"
      by cases (simp_all add: show_int_safe safe_underscore sanitize_safe)
  qed
qed

lemma sanitize_example: "sanitize (js ''my file(1).pdf'') = js ''my_file_1_.pdf''"
  by (simp add: sanitize_def js_def safe_char_def cu_def)

theorem filename_replaces_unsafe_witness:
  "filename 1700000000000 (js ''my file(1).pdf'') = js ''1700000000000_my_file_1_.pdf'' \<and>
   length (sanitize (js ''my file(1).pdf'')) = 14 \<and>
   sanitize (js ''my file(1).pdf'') ! 2 = cu CHR ''_'' \<and>
   safe_char (cu CHR ''7'')"
proof -
  note t = filename_replaces_unsafe [of 1700000000000 "js ''my file(1).pdf''"]
  from t have 1: "filename 1700000000000 (js ''my file(1).pdf'') =
      show_int 1700000000000 @ js ''_'' @ sanitize (js ''my file(1).pdf'')"
    by (rule conjunct1)
  from t have 2: "length (sanitize (js ''my file(1).pdf'')) = length (js ''my file(1).pdf'')"
    by blast
  from t have 3: "\<forall>i < length (js ''my file(1).pdf'').
      sanitize (js ''my file(1).pdf'') ! i =
        (if safe_char (js ''my file(1).pdf'' ! i) then js ''my file(1).pdf'' ! i else cu CHR ''_'')"
    by blast
  from t have 4: "\<forall>u \<in> set (filename 1700000000000 (js ''my file(1).pdf'')). safe_char u"
    by blast
  have a: "filename 1700000000000 (js ''my file(1).pdf'') = js ''1700000000000_my_file_1_.pdf''"
    unfolding 1 show_int_example sanitize_example by (simp add: js_def)
  have b: "length (sanitize (js ''my file(1).pdf'')) = 14"
    unfolding 2 by (simp add: js_def)
  have "(2::nat) < length (js ''my file(1).pdf'')"
    by (simp add: js_def)
  with 3 have "sanitize (js ''my file(1).pdf'') ! 2 =
        (if safe_char (js ''my file(1).pdf'' ! 2) then js ''my file(1).pdf'' ! 2 else cu CHR ''_'')"
    by blast
  moreover have "js ''my file(1).pdf'' ! 2 = cu CHR '' ''"
    by (simp add: js_def)
  moreover have "\<not> safe_char (cu CHR '' '')"
    by (simp add: safe_char_def cu_def)
  ultimately have c: "sanitize (js ''my file(1).pdf'') ! 2 = cu CHR ''_''"
    by simp
  have "cu CHR ''7'' \<in> set (filename 1700000000000 (js ''my file(1).pdf''))"
    unfolding a by (simp add: js_def)
  with 4 have d: "safe_char (cu CHR ''7'')"
    by blast
  from a b c d show ?thesis
    by blast
qed

text \<open>
  Claim C2, as stated, fails: for the original name \<^verbatim>\<open>a b.pdf\<close> the code stores
  \<^verbatim>\<open>1700000000000_a_b.pdf\<close>, while stripping would store \<^verbatim>\<open>1700000000000_ab.pdf\<close>.
\<close>

theorem filename_strip_counterexample:
  "filename 1700000000000 (js ''a b.pdf'') = js ''1700000000000_a_b.pdf'' \<and>
   filename_spec 1700000000000 (js ''a b.pdf'') = js ''1700000000000_ab.pdf'' \<and>
   filename 1700000000000 (js ''a b.pdf'') \<noteq> filename_spec 1700000000000 (js ''a b.pdf'')"
proof -
  have s: "sanitize (js ''a b.pdf'') = js ''a_b.pdf''"
    by (simp add: sanitize_def js_def safe_char_def cu_def)
  have t: "strip_unsafe (js ''a b.pdf'') = js ''ab.pdf''"
    by (simp add: strip_unsafe_def js_def safe_char_def cu_def)
  have a: "filename 1700000000000 (js ''a b.pdf'') = js ''1700000000000_a_b.pdf''"
    unfolding filename_def show_int_example s by (simp add: js_def)
  have b: "filename_spec 1700000000000 (js ''a b.pdf'') = js ''1700000000000_ab.pdf''"
    unfolding filename_spec_def show_int_example t by (simp add: js_def)
  have c: "js ''1700000000000_a_b.pdf'' \<noteq> js ''1700000000000_ab.pdf''"
    by (simp add: js_def)
  from a b c show ?thesis
    by simp
qed

section \<open>Properties of the lead store\<close>

text \<open>
  Claim C3. When the backing file is absent, cannot be read, is empty, or holds a text
  that \<^verbatim>\<open>JSON.parse\<close> rejects, \<open>readLeads\<close> returns the empty array; it is a total
  function, every exception of its body being caught. When the file holds the text of
  a JSON array, \<open>readLeads\<close> returns that array, all of it and in its order. (For the
  empty file the program parses the text \<^verbatim>\<open>[]\<close>, which the runtime reads as the
  empty array.)
\<close>

theorem readLeads_swallows_and_returns:
  "(leads_file s = Absent \<longrightarrow> readLeads rt s = Arr []) \<and>
   (leads_file s = Unreadable \<longrightarrow> readLeads rt s = Arr []) \<and>
   (leads_file s = Content [] \<and> JSON_parse rt (js ''[]'') = Some (Arr []) \<longrightarrow>
      readLeads rt s = Arr []) \<and>
   (leads_file s = Content raw \<and> raw \<noteq> [] \<and> JSON_parse rt raw = None \<longrightarrow>
      readLeads rt s = Arr []) \<and>
   (leads_file s = Content raw \<and> raw \<noteq> [] \<and> JSON_parse rt raw = Some (Arr ls) \<longrightarrow>
      readLeads rt s = Arr ls)"
  by (simp add: readLeads_def readLeads_try_def existsSync_def readFileSync_def and_then_def)

lemma example_parse_empty: "JSON_parse example_node (js ''[]'') = Some (Arr [])"
  by (simp add: example_node_def example_parse_def)

lemma example_text_neq: "example_text \<noteq> []" "example_text \<noteq> js ''[]''" "example_text \<noteq> js ''{}''"
  by (simp_all add: example_text_def js_def)

lemma example_parse_text: "JSON_parse example_node example_text = Some (Arr [example_lead])"
  by (simp add: example_node_def example_parse_def example_text_neq)

lemma example_parse_garbage: "JSON_parse example_node (js ''{oops'') = None"
  by (simp add: example_node_def example_parse_def example_text_def example_text2_def
      example_text3_def js_def cu_def)

theorem readLeads_swallows_and_returns_witness:
  "readLeads example_node \<lparr>leads_file = Absent, write_fault = None\<rparr> = Arr [] \<and>
   readLeads example_node \<lparr>leads_file = Unreadable, write_fault = None\<rparr> = Arr [] \<and>
   readLeads example_node \<lparr>leads_file = Content [], write_fault = None\<rparr> = Arr [] \<and>
   readLeads example_node \<lparr>leads_file = Content (js ''{oops''), write_fault = None\<rparr> = Arr [] \<and>
   readLeads example_node \<lparr>leads_file = Content example_text, write_fault = None\<rparr> =
     Arr [example_lead]"
proof -
  have a: "readLeads example_node \<lparr>leads_file = Absent, write_fault = None\<rparr> = Arr []"
    using readLeads_swallows_and_returns
      [of "\<lparr>leads_file = Absent, write_fault = None\<rparr>" example_node "[]" "[]"]
    by simp
  have b: "readLeads example_node \<lparr>leads_file = Unreadable, write_fault = None\<rparr> = Arr []"
    using readLeads_swallows_and_returns
      [of "\<lparr>leads_file = Unreadable, write_fault = None\<rparr>" example_node "[]" "[]"]
    by simp
  have c: "readLeads example_node \<lparr>leads_file = Content [], write_fault = None\<rparr> = Arr []"
    using readLeads_swallows_and_returns
      [of "\<lparr>leads_file = Content [], write_fault = None\<rparr>" example_node "[]" "[]"]
      example_parse_empty
    by simp
  have "js ''{oops'' \<noteq> []"
    by (simp add: js_def)
  then have d: "readLeads example_node \<lparr>leads_file = Content (js ''{oops''), write_fault = None\<rparr> = Arr []"
    using readLeads_swallows_and_returns
      [of "\<lparr>leads_file = Content (js ''{oops''), write_fault = None\<rparr>" example_node
          "js ''{oops''" "[]"]
      example_parse_garbage
    by simp
  have e: "readLeads example_node \<lparr>leads_file = Content example_text, write_fault = None\<rparr> =
     Arr [example_lead]"
    using readLeads_swallows_and_returns
      [of "\<lparr>leads_file = Content example_text, write_fault = None\<rparr>" example_node
          example_text "[example_lead]"]
      example_parse_text example_text_neq(1)
    by simp
  from a b c d e show ?thesis
    by simp
qed

section \<open>Properties of the admin routes\<close>

text \<open>
  Claim C5. A request to \<^verbatim>\<open>GET /admin\<close> or \<^verbatim>\<open>GET /api/leads\<close> that carries no
  credentials, or a user name or a password other than the configured one (the
  environment variable when it is set and not empty, otherwise \<^verbatim>\<open>admin\<close> and
  \<^verbatim>\<open>password\<close>), is answered by \<open>requireAuth\<close> itself, which does not call
  \<^verbatim>\<open>next()\<close>: the status is 401, the header \<^verbatim>\<open>WWW-Authenticate\<close> is set, and the
  response is the same whatever the store and the runtime are, the handler having
  contributed nothing.
\<close>

theorem requireAuth_rejects:
  assumes "credentials = None \<or>
           (\<exists>name pass. credentials = Some (name, pass) \<and>
              (name \<noteq> adminUser env \<or> pass \<noteq> adminPass env))"
  shows \<open>requireAuth env credentials = Some unauthorized \<and>
         get_admin env rt credentials s = unauthorized \<and>
         get_api_leads env rt credentials s = unauthorized \<and>
         status unauthorized = 401 \<and>
         map_of (headers unauthorized) (js ''WWW-Authenticate'') =
           Some (js ''Basic realm="Admin"'')\<close>
proof -
  from assms have r: "requireAuth env credentials = Some unauthorized"
    by (auto simp: requireAuth_def)
  have h: \<open>map_of (headers unauthorized) (js ''WWW-Authenticate'') =
      Some (js ''Basic realm="Admin"'')\<close>
    by (simp add: unauthorized_def)
  have st: "status unauthorized = 401"
    by (simp add: unauthorized_def)
  from r h st show ?thesis
    by (simp add: get_admin_def get_api_leads_def)
qed

theorem requireAuth_rejects_witness:
  "adminUser \<lparr>ADMIN_USER = None, ADMIN_PASS = Some (js ''s3cret'')\<rparr> = js ''admin'' \<and>
   adminPass \<lparr>ADMIN_USER = None, ADMIN_PASS = Some (js ''s3cret'')\<rparr> = js ''s3cret'' \<and>
   get_admin \<lparr>ADMIN_USER = None, ADMIN_PASS = Some (js ''s3cret'')\<rparr> example_node
     (Some (js ''admin'', js ''password''))
     \<lparr>leads_file = Content example_text, write_fault = None\<rparr> = unauthorized \<and>
   get_api_leads \<lparr>ADMIN_USER = None, ADMIN_PASS = Some (js ''s3cret'')\<rparr> example_node
     None \<lparr>leads_file = Content example_text, write_fault = None\<rparr> = unauthorized \<and>
   status unauthorized = 401"
proof -
  let ?env = "\<lparr>ADMIN_USER = None, ADMIN_PASS = Some (js ''s3cret'')\<rparr>"
  let ?s = "\<lparr>leads_file = Content example_text, write_fault = None\<rparr>"
  have u: "adminUser ?env = js ''admin''"
    by (simp add: adminUser_def env_or_def)
  have p: "adminPass ?env = js ''s3cret''"
    by (simp add: adminPass_def env_or_def js_def)
  have "js ''password'' \<noteq> adminPass ?env"
    unfolding p by (simp add: js_def cu_def)
  then have "Some (js ''admin'', js ''password'') = None \<or>
      (\<exists>name pass. Some (js ''admin'', js ''password'') = Some (name, pass) \<and>
         (name \<noteq> adminUser ?env \<or> pass \<noteq> adminPass ?env))"
    by blast
  from requireAuth_rejects [OF this, of example_node ?s]
  have a: "get_admin ?env example_node (Some (js ''admin'', js ''password'')) ?s = unauthorized"
    and st: "status unauthorized = 401"
    by blast+
  have "(None :: (jsstring \<times> jsstring) option) = None \<or>
      (\<exists>name pass. None = Some (name, pass) \<and>
         (name \<noteq> adminUser ?env \<or> pass \<noteq> adminPass ?env))"
    by blast
  from requireAuth_rejects [OF this, of example_node ?s]
  have b: "get_api_leads ?env example_node None ?s = unauthorized"
    by blast
  from u p a b st show ?thesis
    by blast
qed

section \<open>Properties of the lead record\<close>

lemma unat_cu: "unat (cu c) = of_char c"
proof -
  have "(of_char c :: nat) < 65536"
    using nat_of_char_less_256 [of c] by linarith
  then show ?thesis
    unfolding cu_def by (simp add: unat_of_nat)
qed

lemma cu_eq_iff: "cu c = cu d \<longleftrightarrow> c = d"
proof
  assume "cu c = cu d"
  then have "unat (cu c) = unat (cu d)"
    by simp
  then show "c = d"
    by (simp add: unat_cu)
qed simp

lemma js_eq_iff: "js a = js b \<longleftrightarrow> a = b"
  unfolding js_def by (simp add: inj_map_eq_map inj_on_def cu_eq_iff)

lemma make_lead_fields:
  "field (make_lead now stamp body fls) (js ''id'') = Num now"
  "field (make_lead now stamp body fls) (js ''receivedAt'') = Str stamp"
  "field (make_lead now stamp body fls) (js ''company'') = js_or (field body (js ''company'')) (Str [])"
  "field (make_lead now stamp body fls) (js ''contactName'') =
     js_or (js_or (field body (js ''name'')) (field body (js ''contactName''))) (Str [])"
  "field (make_lead now stamp body fls) (js ''phone'') = js_or (field body (js ''phone'')) (Str [])"
  "field (make_lead now stamp body fls) (js ''email'') = js_or (field body (js ''email'')) (Str [])"
  "field (make_lead now stamp body fls) (js ''amount'') = js_or (field body (js ''amount'')) (Str [])"
  "field (make_lead now stamp body fls) (js ''sector'') = js_or (field body (js ''sector'')) (Str [])"
  "field (make_lead now stamp body fls) (js ''message'') = js_or (field body (js ''message'')) (Str [])"
  "field (make_lead now stamp body fls) (js ''files'') = Arr fls"
  by (simp_all add: make_lead_def js_eq_iff)

lemma make_lead_part0_fields:
  "field (make_lead_part0 now stamp body fls) (js ''id'') = Num now"
  "field (make_lead_part0 now stamp body fls) (js ''contactName'') =
     js_or (field body (js ''name'')) (Str [])"
  by (simp_all add: make_lead_part0_def js_eq_iff)

text \<open>
  Claim C9, as amended. The id of a lead is the reading of the millisecond clock at its
  creation, an integer. Two leads created at different readings have different ids, and
  a lead created at a greater reading has the greater id; nothing is said of two leads
  created at the same reading. This holds in both copies of the server.
\<close>

theorem lead_id_is_clock_reading:
  "field (make_lead now stamp body fls) (js ''id'') = Num now \<and>
   field (make_lead_part0 now stamp body fls) (js ''id'') = Num now \<and>
   (now < now' \<longrightarrow>
      (\<exists>i j. field (make_lead now stamp body fls) (js ''id'') = Num i \<and>
             field (make_lead now' stamp' body' fls') (js ''id'') = Num j \<and> i < j))"
  by (simp add: make_lead_fields make_lead_part0_fields)

theorem lead_id_is_clock_reading_witness:
  "field (make_lead 1700000000000 example_stamp (Obj []) []) (js ''id'') = Num 1700000000000 \<and>
   field (make_lead 1700000000001 example_stamp (Obj []) []) (js ''id'') = Num 1700000000001 \<and>
   (1700000000000 :: int) < 1700000000001"
proof -
  from lead_id_is_clock_reading [of 1700000000000 example_stamp "Obj []" "[]"]
  have a: "field (make_lead 1700000000000 example_stamp (Obj []) []) (js ''id'') =
      Num 1700000000000"
    by (rule conjunct1)
  from lead_id_is_clock_reading [of 1700000000001 example_stamp "Obj []" "[]"]
  have b: "field (make_lead 1700000000001 example_stamp (Obj []) []) (js ''id'') =
      Num 1700000000001"
    by (rule conjunct1)
  from a b show ?thesis
    by simp
qed

text \<open>
  Claim C9, as stated, fails: two submissions handled within the same millisecond give
  two different leads with the same id.
\<close>

theorem lead_id_counterexample:
  "make_lead 1700000000000 example_stamp (Obj [(js ''company'', Str (js ''Acme''))]) [] \<noteq>
   make_lead 1700000000000 example_stamp (Obj [(js ''company'', Str (js ''Bolt''))]) [] \<and>
   field (make_lead 1700000000000 example_stamp (Obj [(js ''company'', Str (js ''Acme''))]) [])
     (js ''id'') =
   field (make_lead 1700000000000 example_stamp (Obj [(js ''company'', Str (js ''Bolt''))]) [])
     (js ''id'')"
proof -
  let ?a = "make_lead 1700000000000 example_stamp (Obj [(js ''company'', Str (js ''Acme''))]) []"
  let ?b = "make_lead 1700000000000 example_stamp (Obj [(js ''company'', Str (js ''Bolt''))]) []"
  have a: "field ?a (js ''company'') = Str (js ''Acme'')"
    unfolding make_lead_fields by (simp add: js_or_def js_eq_iff [of _ "[]", unfolded js_def, simplified])
  have b: "field ?b (js ''company'') = Str (js ''Bolt'')"
    unfolding make_lead_fields by (simp add: js_or_def js_eq_iff [of _ "[]", unfolded js_def, simplified])
  have "js ''Acme'' \<noteq> js ''Bolt''"
    by (simp add: js_eq_iff)
  with a b have "field ?a (js ''company'') \<noteq> field ?b (js ''company'')"
    by simp
  then have "?a \<noteq> ?b"
    by auto
  then show ?thesis
    by (simp add: make_lead_fields(1))
qed

lemma keys_make_lead:
  "keys (make_lead now stamp body fls) =
     [js ''id'', js ''receivedAt'', js ''company'', js ''contactName'', js ''phone'',
      js ''email'', js ''amount'', js ''sector'', js ''message'', js ''files'']"
  by (simp add: make_lead_def)

lemma make_lead_cong:
  assumes "\<forall>k \<in> set read_fields. field body k = field body' k"
  shows "make_lead now stamp body fls = make_lead now stamp body' fls"
  using assms by (simp add: make_lead_def read_fields_def known_fields_def)

text \<open>
  Claim C6, as amended. The lead built from a submission has exactly the properties
  \<^verbatim>\<open>id\<close>, \<^verbatim>\<open>receivedAt\<close>, the seven known fields and \<^verbatim>\<open>files\<close>. Each of
  \<^verbatim>\<open>company\<close>, \<^verbatim>\<open>phone\<close>, \<^verbatim>\<open>email\<close>, \<^verbatim>\<open>amount\<close>, \<^verbatim>\<open>sector\<close> and \<^verbatim>\<open>message\<close>
  is the form field of the same name when that is present and truthy (for a text: not
  empty), and the empty string otherwise. \<^verbatim>\<open>contactName\<close> is the form field
  \<^verbatim>\<open>name\<close> when that is truthy, otherwise the form field \<^verbatim>\<open>contactName\<close> when that
  is truthy, otherwise the empty string (in \<^verbatim>\<open>part_000\<close>: the form field \<^verbatim>\<open>name\<close>
  or the empty string). No other field of the body has any influence on the lead.
\<close>

theorem make_lead_from_form:
  "keys (make_lead now stamp body fls) =
     [js ''id'', js ''receivedAt''] @ known_fields @ [js ''files''] \<and>
   (\<forall>k \<in> set known_fields. k \<noteq> js ''contactName'' \<longrightarrow>
      field (make_lead now stamp body fls) k =
        (if truthy (field body k) then field body k else Str [])) \<and>
   field (make_lead now stamp body fls) (js ''contactName'') =
     (if truthy (field body (js ''name'')) then field body (js ''name'')
      else if truthy (field body (js ''contactName'')) then field body (js ''contactName'')
      else Str []) \<and>
   field (make_lead_part0 now stamp body fls) (js ''contactName'') =
     (if truthy (field body (js ''name'')) then field body (js ''name'') else Str []) \<and>
   ((\<forall>k \<in> set read_fields. field body k = field body' k) \<longrightarrow>
      make_lead now stamp body fls = make_lead now stamp body' fls)"
proof (intro conjI)
  show "keys (make_lead now stamp body fls) =
     [js ''id'', js ''receivedAt''] @ known_fields @ [js ''files'']"
    by (simp add: keys_make_lead known_fields_def)
  show "\<forall>k \<in> set known_fields. k \<noteq> js ''contactName'' \<longrightarrow>
      field (make_lead now stamp body fls) k =
        (if truthy (field body k) then field body k else Str [])"
    by (simp add: known_fields_def make_lead_fields js_or_def)
  show "field (make_lead now stamp body fls) (js ''contactName'') =
     (if truthy (field body (js ''name'')) then field body (js ''name'')
      else if truthy (field body (js ''contactName'')) then field body (js ''contactName'')
      else Str [])"
    by (simp add: make_lead_fields js_or_def)
  show "field (make_lead_part0 now stamp body fls) (js ''contactName'') =
     (if truthy (field body (js ''name'')) then field body (js ''name'') else Str [])"
    by (simp add: make_lead_part0_fields js_or_def)
  show "(\<forall>k \<in> set read_fields. field body k = field body' k) \<longrightarrow>
      make_lead now stamp body fls = make_lead now stamp body' fls"
    using make_lead_cong by blast
qed

lemma field_example:
  "field (Obj [(js ''name'', Str (js ''Al'')), (js ''contactName'', Str (js ''Bob'')),
               (js ''hobby'', Str (js ''golf''))]) (js ''name'') = Str (js ''Al'')"
  "field (Obj [(js ''name'', Str (js ''Al'')), (js ''contactName'', Str (js ''Bob'')),
               (js ''hobby'', Str (js ''golf''))]) (js ''contactName'') = Str (js ''Bob'')"
  "field (Obj [(js ''name'', Str (js ''Al'')), (js ''contactName'', Str (js ''Bob'')),
               (js ''hobby'', Str (js ''golf''))]) (js ''company'') = Undefined"
  by (simp_all add: js_eq_iff)

lemma js_Nil_iff: "js a = [] \<longleftrightarrow> a = []"
  by (simp add: js_def)

theorem make_lead_from_form_witness:
  "field (make_lead 1700000000000 example_stamp
            (Obj [(js ''name'', Str (js ''Al'')), (js ''contactName'', Str (js ''Bob'')),
                  (js ''hobby'', Str (js ''golf''))]) [])
         (js ''contactName'') = Str (js ''Al'') \<and>
   field (make_lead 1700000000000 example_stamp
            (Obj [(js ''name'', Str (js ''Al'')), (js ''contactName'', Str (js ''Bob'')),
                  (js ''hobby'', Str (js ''golf''))]) [])
         (js ''company'') = Str [] \<and>
   keys (make_lead 1700000000000 example_stamp
            (Obj [(js ''name'', Str (js ''Al'')), (js ''contactName'', Str (js ''Bob'')),
                  (js ''hobby'', Str (js ''golf''))]) []) =
     [js ''id'', js ''receivedAt'', js ''company'', js ''contactName'', js ''phone'',
      js ''email'', js ''amount'', js ''sector'', js ''message'', js ''files'']"
proof -
  let ?body = "Obj [(js ''name'', Str (js ''Al'')), (js ''contactName'', Str (js ''Bob'')),
                  (js ''hobby'', Str (js ''golf''))]"
  note t = make_lead_from_form [of 1700000000000 example_stamp ?body "[]" ?body]
  from t have a: "field (make_lead 1700000000000 example_stamp ?body []) (js ''contactName'') =
     (if truthy (field ?body (js ''name'')) then field ?body (js ''name'')
      else if truthy (field ?body (js ''contactName'')) then field ?body (js ''contactName'')
      else Str [])"
    by blast
  from t have b: "\<forall>k \<in> set known_fields. k \<noteq> js ''contactName'' \<longrightarrow>
      field (make_lead 1700000000000 example_stamp ?body []) k =
        (if truthy (field ?body k) then field ?body k else Str [])"
    by blast
  from t have c: "keys (make_lead 1700000000000 example_stamp ?body []) =
     [js ''id'', js ''receivedAt''] @ known_fields @ [js ''files'']"
    by blast
  have a': "field (make_lead 1700000000000 example_stamp ?body []) (js ''contactName'') =
      Str (js ''Al'')"
    unfolding a field_example by (simp add: js_Nil_iff)
  have "js ''company'' \<in> set known_fields" and "js ''company'' \<noteq> js ''contactName''"
    by (simp_all add: known_fields_def js_eq_iff)
  with b have "field (make_lead 1700000000000 example_stamp ?body []) (js ''company'') =
        (if truthy (field ?body (js ''company'')) then field ?body (js ''company'') else Str [])"
    by blast
  then have b': "field (make_lead 1700000000000 example_stamp ?body []) (js ''company'') = Str []"
    unfolding field_example by simp
  from c have c': "keys (make_lead 1700000000000 example_stamp ?body []) =
     [js ''id'', js ''receivedAt'', js ''company'', js ''contactName'', js ''phone'',
      js ''email'', js ''amount'', js ''sector'', js ''message'', js ''files'']"
    by (simp add: known_fields_def)
  from a' b' c' show ?thesis
    by blast
qed

text \<open>
  Claim C6, as stated, fails for \<^verbatim>\<open>contactName\<close>. With the form fields
  \<^verbatim>\<open>name=Al\<close> and \<^verbatim>\<open>contactName=Bob\<close> the lead's \<^verbatim>\<open>contactName\<close> is \<^verbatim>\<open>Al\<close>, not
  the form field of that name; and it is no function of the form field \<^verbatim>\<open>name\<close>
  alone either, since with \<^verbatim>\<open>contactName=Bob\<close> and no \<^verbatim>\<open>name\<close> it is \<^verbatim>\<open>Bob\<close>.
\<close>

theorem make_lead_contact_counterexample:
  "map_of (form_fields_spec (Obj [(js ''name'', Str (js ''Al'')),
                                  (js ''contactName'', Str (js ''Bob''))]))
     (js ''contactName'') = Some (Str (js ''Bob'')) \<and>
   field (make_lead 1700000000000 example_stamp
            (Obj [(js ''name'', Str (js ''Al'')), (js ''contactName'', Str (js ''Bob''))]) [])
     (js ''contactName'') = Str (js ''Al'') \<and>
   field (make_lead 1700000000000 example_stamp
            (Obj [(js ''contactName'', Str (js ''Bob''))]) [])
     (js ''contactName'') = Str (js ''Bob'') \<and>
   Str (js ''Al'') \<noteq> Str (js ''Bob'')"
  by (simp add: form_fields_spec_def known_fields_def make_lead_fields js_or_def js_eq_iff
      js_Nil_iff)

section \<open>Properties of saving and of the submission route\<close>

lemma saveLead_part0_written:
  assumes "readLeads rt s = Arr old" and "write_fault s = None"
  shows "saveLead_part0 rt s lead =
           (Inr (), s\<lparr>leads_file := Content (JSON_stringify rt (Arr (lead # old)))\<rparr>)"
  using assms by (simp add: saveLead_part0_def writeFileSync_def)

lemma saveLead_part0_fault:
  assumes "readLeads rt s = Arr old" and "write_fault s = Some st"
  shows "saveLead_part0 rt s lead = (Inl IOError, s\<lparr>leads_file := st\<rparr>)"
  using assms by (simp add: saveLead_part0_def writeFileSync_def)

lemma readLeads_Content:
  assumes "leads_file s = Content raw" and "raw \<noteq> []" and "JSON_parse rt raw = Some v"
  shows "readLeads rt s = v"
  using assms
  by (simp add: readLeads_def readLeads_try_def existsSync_def readFileSync_def and_then_def)

lemma readLeads_Absent: "leads_file s = Absent \<Longrightarrow> readLeads rt s = Arr []"
  by (simp add: readLeads_def readLeads_try_def existsSync_def)

lemma submit_answers_ok:
  "submit rt now stamp body fls s =
     (ok_response (make_lead now stamp (js_or body (Obj [])) (map (file_entry rt) fls)),
      saveLead rt s (make_lead now stamp (js_or body (Obj [])) (map (file_entry rt) fls)))"
  by (simp add: submit_def submit_try_def Let_def)

lemma post_submit_no_files:
  "post_submit rt now stamp body [] s = submit rt now stamp body [] s"
  by (simp add: post_submit_def)

lemma post_submit_part0_no_files:
  "post_submit_part0 rt now stamp body [] s = submit_part0 rt now stamp body [] s"
  by (simp add: post_submit_part0_def)

lemma ok_response_make_lead:
  "ok_response (make_lead now stamp body fls) =
     \<lparr>status = 200, headers = [],
      payload = Json (Obj [(js ''ok'', Bool True), (js ''id'', Num now)])\<rparr>"
  by (simp add: ok_response_def make_lead_fields)

lemma ok_response_make_lead_part0:
  "ok_response (make_lead_part0 now stamp body fls) =
     \<lparr>status = 200, headers = [],
      payload = Json (Obj [(js ''ok'', Bool True), (js ''id'', Num now)])\<rparr>"
  by (simp add: ok_response_def make_lead_part0_fields)

text \<open>
  Claim C1 at a failing input. The backing file is absent and the write throws, leaving
  it absent. The handler of \<^verbatim>\<open>server.js\<close> answers with status 200 and
  \<^verbatim>\<open>{ok: true, id}\<close> although nothing was stored; the handler of \<^verbatim>\<open>part_000\<close>
  answers the same request with status 500 and \<^verbatim>\<open>{ok: false, message}\<close>, as the
  claim says.
\<close>

theorem submit_write_failure:
  "post_submit example_node 1700000000000 example_stamp
     (Obj [(js ''company'', Str (js ''Acme''))]) []
     \<lparr>leads_file = Absent, write_fault = Some Absent\<rparr> =
     (\<lparr>status = 200, headers = [],
       payload = Json (Obj [(js ''ok'', Bool True), (js ''id'', Num 1700000000000)])\<rparr>,
      \<lparr>leads_file = Absent, write_fault = Some Absent\<rparr>) \<and>
   post_submit_part0 example_node 1700000000000 example_stamp
     (Obj [(js ''company'', Str (js ''Acme''))]) []
     \<lparr>leads_file = Absent, write_fault = Some Absent\<rparr> =
     (\<lparr>status = 500, headers = [],
       payload = Json (Obj [(js ''ok'', Bool False),
                            (js ''message'', Str (js ''Server error''))])\<rparr>,
      \<lparr>leads_file = Absent, write_fault = Some Absent\<rparr>)"
proof -
  let ?s = "\<lparr>leads_file = Absent, write_fault = Some Absent\<rparr>"
  have r: "readLeads example_node ?s = Arr []"
    by (simp add: readLeads_Absent)
  have f: "\<And>lead. saveLead_part0 example_node ?s lead = (Inl IOError, ?s)"
    using saveLead_part0_fault [OF r, of Absent] by simp
  have a: "post_submit example_node 1700000000000 example_stamp
     (Obj [(js ''company'', Str (js ''Acme''))]) [] ?s =
     (\<lparr>status = 200, headers = [],
       payload = Json (Obj [(js ''ok'', Bool True), (js ''id'', Num 1700000000000)])\<rparr>, ?s)"
    by (simp add: post_submit_no_files submit_answers_ok ok_response_make_lead saveLead_def f)
  have b: "post_submit_part0 example_node 1700000000000 example_stamp
     (Obj [(js ''company'', Str (js ''Acme''))]) [] ?s =
     (\<lparr>status = 500, headers = [],
       payload = Json (Obj [(js ''ok'', Bool False),
                            (js ''message'', Str (js ''Server error''))])\<rparr>, ?s)"
    by (simp add: post_submit_part0_no_files submit_part0_def submit_try_part0_def Let_def f
        server_error_def)
  from a b show ?thesis
    by (rule conjI)
qed




lemma example_text_object:
  "example_text =
     js ''['' @ [0x0A] @
     example_object ''1700000000000'' ''2023-11-14T22:13:20.000Z'' ''Acme'' @ [0x0A] @ js '']''"
  by (simp add: example_text_def example_object_def js_def)

lemma example_text2_neq:
  "example_text2 \<noteq> []" "example_text2 \<noteq> js ''[]''" "example_text2 \<noteq> js ''{}''"
  "example_text2 \<noteq> example_text"
  by (simp_all add: example_text_def example_text2_def example_object_def js_def cu_eq_iff)


lemma example_parse_text2:
  "JSON_parse example_node example_text2 = Some (Arr [example_lead2, example_lead])"
  by (simp add: example_node_def example_parse_def example_text2_neq)






section \<open>Properties of the upload limits\<close>

lemma multer_accepted:
  "multer lim st n ps = Inr qs \<Longrightarrow>
     qs = ps \<and> (\<forall>p \<in> set ps. bytes p \<le> fileSize lim) \<and>
     (\<forall>m. files lim = Some m \<longrightarrow> ps \<noteq> [] \<longrightarrow> n + length ps \<le> m) \<and>
     (\<forall>name maxCount. st = ArrayField name maxCount \<longrightarrow> ps \<noteq> [] \<longrightarrow>
        n + length ps \<le> maxCount)"
proof (induction ps arbitrary: n qs)
  case Nil
  then show ?case by simp
next
  case (Cons p ps)
  from Cons.prems obtain rest where
    c: "\<not> (case files lim of None \<Rightarrow> False | Some m \<Rightarrow> m \<le> n)"
    and e: "expected st n p"
    and b: "bytes p \<le> fileSize lim"
    and r: "multer lim st (Suc n) ps = Inr rest"
    and q: "qs = p # rest"
    by (auto simp: and_then_def split: if_splits sum.splits)
  note ih = Cons.IH [OF r]
  have 1: "qs = p # ps"
    using ih q by simp
  have 2: "\<forall>x \<in> set (p # ps). bytes x \<le> fileSize lim"
    using ih b by simp
  have 3: "\<forall>m. files lim = Some m \<longrightarrow> n + length (p # ps) \<le> m"
  proof (intro allI impI)
    fix m
    assume m: "files lim = Some m"
    with c have "n < m" by simp
    with ih m show "n + length (p # ps) \<le> m"
      by (cases ps) auto
  qed
  have 4: "\<forall>name maxCount. st = ArrayField name maxCount \<longrightarrow> n + length (p # ps) \<le> maxCount"
  proof (intro allI impI)
    fix name maxCount
    assume m: "st = ArrayField name maxCount"
    with e have "n < maxCount" by simp
    with ih m show "n + length (p # ps) \<le> maxCount"
      by (cases ps) auto
  qed
  from 1 2 3 4 show ?case
    by blast
qed

lemma multer_any_accepts:
  "\<forall>p \<in> set ps. bytes p \<le> fileSize lim \<Longrightarrow> files lim = Some m \<Longrightarrow> n + length ps \<le> m \<Longrightarrow>
   multer lim AnyField n ps = Inr ps"
  by (induction ps arbitrary: n) (auto simp: and_then_def)

lemma multer_rejected:
  assumes "(\<exists>p \<in> set ps. fileSize lim < bytes p) \<or>
           (\<exists>m. files lim = Some m \<and> m < length ps) \<or>
           (\<exists>name maxCount. st = ArrayField name maxCount \<and> maxCount < length ps)"
  shows "\<exists>e. multer lim st 0 ps = Inl e"
proof (cases "multer lim st 0 ps")
  case (Inl e)
  then show ?thesis by blast
next
  case (Inr qs)
  from assms have "ps \<noteq> []"
    by (cases ps) auto
  with multer_accepted [OF Inr] assms show ?thesis
    by (auto simp: not_less [symmetric])
qed

text \<open>
  Claim C8, as amended. A request with more than five files, or with a file of more
  than 10 * 1024 * 1024 bytes, is refused by the upload middleware in both copies of
  the server: the handler does not run, the store is left as it was, and the response
  is that of the framework's error handler, whose status is 500. Conversely the
  middleware of \<^verbatim>\<open>server.js\<close> passes the files on unchanged only if they are at most
  five, each of at most 10 * 1024 * 1024 bytes, and it passes every such request on to
  the handler.
\<close>

theorem upload_limits_enforced:
  "(5 < length parts \<or> (\<exists>p \<in> set parts. 10 * 1024 * 1024 < bytes p) \<longrightarrow>
      post_submit rt now stamp body parts s = (express_error, s) \<and>
      post_submit_part0 rt now stamp body parts s = (express_error, s)) \<and>
   status express_error = 500 \<and>
   (multer upload_limits AnyField 0 parts = Inr accepted \<longrightarrow>
      accepted = parts \<and> length parts \<le> 5 \<and>
      (\<forall>p \<in> set parts. bytes p \<le> 10 * 1024 * 1024)) \<and>
   (length parts \<le> 5 \<and> (\<forall>p \<in> set parts. bytes p \<le> 10 * 1024 * 1024) \<longrightarrow>
      post_submit rt now stamp body parts s =
        submit rt now stamp body (map (store_part rt) parts) s)"
proof (intro conjI impI)
  assume big: "5 < length parts \<or> (\<exists>p \<in> set parts. 10 * 1024 * 1024 < bytes p)"
  then have "\<exists>e. multer upload_limits AnyField 0 parts = Inl e"
    by (intro multer_rejected) (auto simp: upload_limits_def)
  then show "post_submit rt now stamp body parts s = (express_error, s)"
    by (auto simp: post_submit_def)
  from big have "\<exists>e. multer upload_limits_part0 (ArrayField (js ''statements'') 5) 0 parts = Inl e"
    by (intro multer_rejected) (auto simp: upload_limits_part0_def)
  then show "post_submit_part0 rt now stamp body parts s = (express_error, s)"
    by (auto simp: post_submit_part0_def)
next
  show "status express_error = 500"
    by (simp add: express_error_def)
next
  assume a: "multer upload_limits AnyField 0 parts = Inr accepted"
  from multer_accepted [OF a] show "accepted = parts"
    by blast
  from multer_accepted [OF a] show "length parts \<le> 5"
    by (cases parts) (simp_all add: upload_limits_def)
  from multer_accepted [OF a] show "\<forall>p \<in> set parts. bytes p \<le> 10 * 1024 * 1024"
    by (simp add: upload_limits_def)
next
  assume "length parts \<le> 5 \<and> (\<forall>p \<in> set parts. bytes p \<le> 10 * 1024 * 1024)"
  then have "multer upload_limits AnyField 0 parts = Inr parts"
    by (intro multer_any_accepts [where m = 5]) (simp_all add: upload_limits_def)
  then show "post_submit rt now stamp body parts s =
      submit rt now stamp body (map (store_part rt) parts) s"
    by (simp add: post_submit_def)
qed

theorem upload_limits_enforced_witness:
  "post_submit example_node 1700000000000 example_stamp (Obj [])
     [example_part 1, example_part 2, example_part 3, example_part 4, example_part 5,
      example_part 6]
     \<lparr>leads_file = Absent, write_fault = None\<rparr> =
     (express_error, \<lparr>leads_file = Absent, write_fault = None\<rparr>) \<and>
   post_submit_part0 example_node 1700000000000 example_stamp (Obj [])
     [example_part 10485761]
     \<lparr>leads_file = Absent, write_fault = None\<rparr> =
     (express_error, \<lparr>leads_file = Absent, write_fault = None\<rparr>) \<and>
   post_submit example_node 1700000000000 example_stamp (Obj [])
     [example_part 10485760] \<lparr>leads_file = Absent, write_fault = None\<rparr> =
     submit example_node 1700000000000 example_stamp (Obj [])
       [store_part example_node (example_part 10485760)]
       \<lparr>leads_file = Absent, write_fault = None\<rparr> \<and>
   status express_error = 500"
proof -
  let ?s = "\<lparr>leads_file = Absent, write_fault = None\<rparr>"
  let ?six = "[example_part 1, example_part 2, example_part 3, example_part 4, example_part 5,
      example_part 6]"
  have 1: "5 < length ?six \<or> (\<exists>p \<in> set ?six. 10 * 1024 * 1024 < bytes p)"
    by simp
  have 2: "5 < length [example_part 10485761] \<or>
      (\<exists>p \<in> set [example_part 10485761]. 10 * 1024 * 1024 < bytes p)"
    by (simp add: example_part_def)
  have 3: "length [example_part 10485760] \<le> 5 \<and>
      (\<forall>p \<in> set [example_part 10485760]. bytes p \<le> 10 * 1024 * 1024)"
    by (simp add: example_part_def)
  from upload_limits_enforced [of ?six example_node 1700000000000 example_stamp "Obj []" ?s] 1
  have a: "post_submit example_node 1700000000000 example_stamp (Obj []) ?six ?s =
      (express_error, ?s)"
    by blast
  from upload_limits_enforced
    [of "[example_part 10485761]" example_node 1700000000000 example_stamp "Obj []" ?s] 2
  have b: "post_submit_part0 example_node 1700000000000 example_stamp (Obj [])
      [example_part 10485761] ?s = (express_error, ?s)"
    by blast
  from upload_limits_enforced
    [of "[example_part 10485760]" example_node 1700000000000 example_stamp "Obj []" ?s] 3
  have c: "post_submit example_node 1700000000000 example_stamp (Obj [])
      [example_part 10485760] ?s =
      submit example_node 1700000000000 example_stamp (Obj [])
        (map (store_part example_node) [example_part 10485760]) ?s"
    and d: "status express_error = 500"
    by blast+
  from a b c d show ?thesis
    by simp
qed

text \<open>
  Claim C8, as stated, fails in the status of the rejection: a request with six files of
  one to six bytes is refused before the handler and the store, but the response is
  the framework's error response with status 500, which is no client error (4xx). The
  program has no error-handling middleware that would turn a multer error into one.
\<close>

theorem upload_limits_counterexample:
  "post_submit example_node 1700000000000 example_stamp (Obj [])
     [example_part 1, example_part 2, example_part 3, example_part 4, example_part 5,
      example_part 6]
     \<lparr>leads_file = Absent, write_fault = None\<rparr> =
     (\<lparr>status = 500, headers = [], payload = ErrorPage\<rparr>,
      \<lparr>leads_file = Absent, write_fault = None\<rparr>) \<and>
   \<not> (400 \<le> (500 :: nat) \<and> (500 :: nat) < 500)"
  by (simp add: post_submit_def upload_limits_def example_part_def and_then_def
      express_error_def)

section \<open>The response and the stored record\<close>

text \<open>
  Where the save takes effect -- the files pass the upload limits, the store reads as an
  array \<open>old\<close>, the write succeeds and the runtime reads the written text back as the
  value written -- the response of \<^verbatim>\<open>server.js\<close> is \<^verbatim>\<open>{ok: true, id}\<close> with status
  200, the store afterwards reads as the new lead followed by \<open>old\<close>, and the \<^verbatim>\<open>id\<close>
  of the response is the \<^verbatim>\<open>id\<close> of that lead at the head of the store.
\<close>

lemma response_id_when_saved:
  assumes "length parts \<le> 5" and "\<forall>p \<in> set parts. bytes p \<le> 10 * 1024 * 1024"
    and "readLeads rt s = Arr old"
    and "write_fault s = None"
    and "lead = make_lead now stamp (js_or body (Obj []))
                  (map (file_entry rt) (map (store_part rt) parts))"
    and "JSON_stringify rt (Arr (lead # old)) \<noteq> []"
    and "JSON_parse rt (JSON_stringify rt (Arr (lead # old))) = Some (Arr (lead # old))"
  shows "\<exists>s'. post_submit rt now stamp body parts s =
           (\<lparr>status = 200, headers = [],
             payload = Json (Obj [(js ''ok'', Bool True),
                                  (js ''id'', field lead (js ''id''))])\<rparr>, s') \<and>
         readLeads rt s' = Arr (lead # old)"
proof -
  from assms(1,2) have "multer upload_limits AnyField 0 parts = Inr parts"
    by (intro multer_any_accepts [where m = 5]) (simp_all add: upload_limits_def)
  then have "post_submit rt now stamp body parts s =
      submit rt now stamp body (map (store_part rt) parts) s"
    by (simp add: post_submit_def)
  then have p: "post_submit rt now stamp body parts s = (ok_response lead, saveLead rt s lead)"
    by (simp add: submit_answers_ok assms(5))
  have w: "saveLead_part0 rt s lead =
      (Inr (), s\<lparr>leads_file := Content (JSON_stringify rt (Arr (lead # old)))\<rparr>)"
    using assms(3,4) by (rule saveLead_part0_written)
  then have "leads_file (saveLead rt s lead) = Content (JSON_stringify rt (Arr (lead # old)))"
    by (simp add: saveLead_def)
  then have r: "readLeads rt (saveLead rt s lead) = Arr (lead # old)"
    using assms(6,7) by (rule readLeads_Content)
  from p r show ?thesis
    by (simp add: ok_response_def)
qed

text \<open>
  In \<^verbatim>\<open>part_000\<close> the handler answers with status 200 only when the store read as an
  array and the write succeeded: the text of the new lead followed by the old ones is
  then in the file.
\<close>

lemma submit_part0_ok_means_saved:
  assumes "submit_part0 rt now stamp body fls s = (r, s')" and "status r = 200"
    and "lead = make_lead_part0 now stamp (js_or body (Obj [])) (map (file_entry rt) fls)"
  shows "\<exists>old. readLeads rt s = Arr old \<and> write_fault s = None \<and> r = ok_response lead \<and>
           leads_file s' = Content (JSON_stringify rt (Arr (lead # old)))"
proof (cases "saveLead_part0 rt s lead")
  case (Pair res t)
  show ?thesis
  proof (cases res)
    case (Inl e)
    with Pair assms have "r = server_error"
      by (simp add: submit_part0_def submit_try_part0_def Let_def)
    with assms(2) show ?thesis
      by (simp add: server_error_def)
  next
    case (Inr u)
    with Pair assms have r: "r = ok_response lead" and t: "s' = t"
      by (simp_all add: submit_part0_def submit_try_part0_def Let_def)
    from Pair Inr obtain old where o: "readLeads rt s = Arr old"
      by (cases "readLeads rt s") (simp_all add: saveLead_part0_def)
    with Pair Inr have "write_fault s = None \<and>
        leads_file t = Content (JSON_stringify rt (Arr (lead # old)))"
      by (cases "write_fault s") (auto simp: saveLead_part0_def writeFileSync_def)
    with r t o show ?thesis
      by blast
  qed
qed

text \<open>
  Claim C10 at a failing input. The store holds two leads, with ids 1700000000500 and
  1700000000000, and the write throws, leaving the file as it was. The handler of
  \<^verbatim>\<open>server.js\<close> answers with status 200 and \<^verbatim>\<open>{ok: true, id: 1700000001000}\<close>; the
  store still reads as the two old leads, so the id of the response is the id of no
  stored lead and the lead at the head has another id. The handler of \<^verbatim>\<open>part_000\<close>
  answers the same request with status 500 and \<^verbatim>\<open>{ok: false, message}\<close>.
\<close>

theorem response_id_without_record:
  "post_submit example_node 1700000001000 (js ''2023-11-14T22:13:21.000Z'')
     (Obj [(js ''company'', Str (js ''Cove''))]) []
     \<lparr>leads_file = Content example_text2, write_fault = Some (Content example_text2)\<rparr> =
     (\<lparr>status = 200, headers = [],
       payload = Json (Obj [(js ''ok'', Bool True), (js ''id'', Num 1700000001000)])\<rparr>,
      \<lparr>leads_file = Content example_text2, write_fault = Some (Content example_text2)\<rparr>) \<and>
   readLeads example_node
     \<lparr>leads_file = Content example_text2, write_fault = Some (Content example_text2)\<rparr> =
     Arr [example_lead2, example_lead] \<and>
   field example_lead2 (js ''id'') = Num 1700000000500 \<and>
   field example_lead (js ''id'') = Num 1700000000000 \<and>
   post_submit_part0 example_node 1700000001000 (js ''2023-11-14T22:13:21.000Z'')
     (Obj [(js ''company'', Str (js ''Cove''))]) []
     \<lparr>leads_file = Content example_text2, write_fault = Some (Content example_text2)\<rparr> =
     (\<lparr>status = 500, headers = [],
       payload = Json (Obj [(js ''ok'', Bool False),
                            (js ''message'', Str (js ''Server error''))])\<rparr>,
      \<lparr>leads_file = Content example_text2, write_fault = Some (Content example_text2)\<rparr>)"
proof -
  let ?s = "\<lparr>leads_file = Content example_text2, write_fault = Some (Content example_text2)\<rparr>"
  let ?body = "Obj [(js ''company'', Str (js ''Cove''))]"
  have r: "readLeads example_node ?s = Arr [example_lead2, example_lead]"
    by (rule readLeads_Content [where raw = example_text2])
      (simp_all add: example_text2_neq example_parse_text2)
  have f: "\<And>lead. saveLead_part0 example_node ?s lead = (Inl IOError, ?s)"
    using saveLead_part0_fault [OF r, of "Content example_text2"] by simp
  have a: "post_submit example_node 1700000001000 (js ''2023-11-14T22:13:21.000Z'') ?body [] ?s =
     (\<lparr>status = 200, headers = [],
       payload = Json (Obj [(js ''ok'', Bool True), (js ''id'', Num 1700000001000)])\<rparr>, ?s)"
    by (simp add: post_submit_no_files submit_answers_ok ok_response_make_lead saveLead_def f)
  have b: "post_submit_part0 example_node 1700000001000 (js ''2023-11-14T22:13:21.000Z'')
      ?body [] ?s =
     (\<lparr>status = 500, headers = [],
       payload = Json (Obj [(js ''ok'', Bool False),
                            (js ''message'', Str (js ''Server error''))])\<rparr>, ?s)"
    by (simp add: post_submit_part0_no_files submit_part0_def submit_try_part0_def Let_def f
        server_error_def)
  have i: "field example_lead2 (js ''id'') = Num 1700000000500"
    "field example_lead (js ''id'') = Num 1700000000000"
    by (simp_all add: example_lead2_def example_lead_def make_lead_fields)
  from a r i b show ?thesis
    by blast
qed

section \<open>Properties of the HTML rendering\<close>

lemma markup_escape_unit: "filter markup (escape_unit u) = []"
  by (simp add: escape_unit_def markup_def js_def cu_eq_iff)

lemma markup_escape: "filter markup (escape s) = []"
  by (simp add: escape_def filter_concat markup_escape_unit comp_def)

lemma starts_reference_append: "starts_reference r \<Longrightarrow> starts_reference (r @ b)"
proof -
  have "take (length e) (r @ b) = e" if "take (length e) r = e" for e :: jsstring
  proof -
    from that have "length e \<le> length r"
      by (metis length_take min.cobounded2 min.commute)
    with that show ?thesis
      by simp
  qed
  then show "starts_reference r \<Longrightarrow> starts_reference (r @ b)"
    unfolding starts_reference_def list_ex_iff by blast
qed

lemma references_only_append:
  "references_only a \<Longrightarrow> references_only b \<Longrightarrow> references_only (a @ b)"
  by (induction a) (auto simp: starts_reference_append)

lemma references_only_plain: "cu CHR ''&'' \<notin> set a \<Longrightarrow> references_only a"
  by (induction a) auto

lemma references_only_escape_unit: "references_only (escape_unit u)"
  by (simp add: escape_unit_def js_def starts_reference_def references_def cu_eq_iff)

lemma references_only_concat:
  "\<forall>x \<in> set xs. references_only x \<Longrightarrow> references_only (concat xs)"
  by (induction xs) (auto simp: references_only_append)

lemma references_only_escape: "references_only (escape s)"
  by (simp add: escape_def references_only_concat references_only_escape_unit)

lemma escapeHtml_escaped:
  "escapeHtml v = Inr x \<Longrightarrow> filter markup x = [] \<and> references_only x"
  by (auto simp: escapeHtml_def and_then_def markup_escape references_only_escape
      split: sum.splits)

lemma escapeHtml_Str: "escapeHtml (Str s) = Inr (escape s)"
  by (simp add: escapeHtml_def and_then_def)

lemma escapeHtml_Undefined: "escapeHtml Undefined = Inr []"
  by (simp add: escapeHtml_def and_then_def escape_def)

lemma safe_char_plain: "safe_char u \<Longrightarrow> \<not> markup u \<and> u \<noteq> cu CHR ''&''"
  by (auto simp: safe_char_def markup_def cu_def)

lemma escape_example:
  "escape (js ''<script>alert(1)</script>'') = js ''&lt;script&gt;alert(1)&lt;/script&gt;''"
  by (simp add: escape_def escape_unit_def js_def cu_eq_iff)

lemma map_err_Inr:
  "map_err f xs = Inr ys \<Longrightarrow> length ys = length xs \<and> (\<forall>i < length xs. f (xs ! i) = Inr (ys ! i))"
proof (induction xs arbitrary: ys)
  case Nil
  then show ?case by simp
next
  case (Cons x xs)
  from Cons.prems obtain y rest where
    y: "f x = Inr y" and r: "map_err f xs = Inr rest" and e: "ys = y # rest"
    by (auto split: sum.splits)
  from Cons.IH [OF r] y e show ?case
    by (auto simp: nth_Cons split: nat.splits)
qed

lemma map_err_all:
  assumes "map_err f xs = Inr ys" and "\<And>x y. f x = Inr y \<Longrightarrow> P y"
  shows "\<forall>y \<in> set ys. P y"
proof
  fix y
  assume "y \<in> set ys"
  then obtain i where "i < length ys" and "ys ! i = y"
    by (auto simp: in_set_conv_nth)
  with map_err_Inr [OF assms(1)] have "f (xs ! i) = Inr y"
    by auto
  then show "P y"
    by (rule assms(2))
qed

lemma markup_literals:
  "filter markup (js '' '') = []"
  by (simp add: markup_def js_def cu_eq_iff)

lemma markup_join_space:
  "filter markup (join_with (js '' '') xs) = concat (map (filter markup) xs)"
  by (induction "js '' ''" xs rule: join_with.induct) (simp_all add: markup_literals)

lemma references_only_join_space:
  "\<forall>x \<in> set xs. references_only x \<Longrightarrow> references_only (join_with (js '' '') xs)"
proof (induction "js '' ''" xs rule: join_with.induct)
  case 1
  then show ?case by simp
next
  case (2 x)
  then show ?case by simp
next
  case (3 x y r)
  have "references_only (js '' '')"
    by (simp add: js_def cu_eq_iff)
  with 3 show ?case
    by (simp add: references_only_append)
qed

lemma file_link_markup:
  assumes "file_link f = Inr x"
  shows "filter markup x = filter markup link_skeleton \<and> references_only x"
proof -
  from assms obtain p href n label where
    h: "escapeHtml p = Inr href" and l: "escapeHtml n = Inr label"
    and x: \<open>x = js ''<a class="file" href="/'' @ href @ js ''" target="_blank">'' @
            label @ js ''</a>''\<close>
    by (auto simp: file_link_def and_then_def split: sum.splits)
  have a: \<open>references_only (js ''<a class="file" href="/'')\<close>
    \<open>references_only (js ''" target="_blank">'')\<close>
    \<open>references_only (js ''</a>'')\<close>
    by (simp_all add: js_def cu_eq_iff)
  from x a escapeHtml_escaped [OF h] escapeHtml_escaped [OF l] show ?thesis
    by (simp add: link_skeleton_def references_only_append)
qed

lemma filesHtml_markup:
  assumes "filesHtml l = Inr links"
  shows "filter markup links =
           filter markup (join_with (js '' '') (replicate (file_count l) link_skeleton)) \<and>
         references_only links"
proof -
  from assms obtain fs xs where
    f: "js_or (field l (js ''files'')) (Arr []) = Arr fs"
    and m: "map_err file_link fs = Inr xs"
    and l: "links = join_with (js '' '') xs"
    by (auto simp: filesHtml_def and_then_def get_field_def
        split: sum.splits jsval.splits if_splits)
  have n: "length xs = file_count l"
    using map_err_Inr [OF m] f by (simp add: file_count_def)
  have p: "\<forall>x \<in> set xs. filter markup x = filter markup link_skeleton \<and> references_only x"
    using m file_link_markup by (rule map_err_all)
  then have "map (filter markup) xs = replicate (length xs) (filter markup link_skeleton)"
    by (simp add: map_replicate_const [symmetric] cong: map_cong)
  with n p l show ?thesis
    by (simp add: markup_join_space references_only_join_space)
qed

lemma cell_literals:
  "references_only (js ''<tr><td>'')"
  "references_only (js ''</td><td>'')"
  "references_only (js ''</td></tr>'')"
  by (simp_all add: js_def cu_eq_iff)

lemma admin_row_markup:
  assumes "admin_row rt l = Inr row"
  shows "filter markup row = filter markup (row_skeleton (file_count l)) \<and> references_only row"
proof -
  from assms obtain links d received company contact email phone amount where
    f: "filesHtml l = Inr links"
    and e: "escapeHtml d = Inr received"
      "escapeHtml (field l (js ''company'')) = Inr company"
      "escapeHtml (field l (js ''contactName'')) = Inr contact"
      "escapeHtml (field l (js ''email'')) = Inr email"
      "escapeHtml (field l (js ''phone'')) = Inr phone"
      "escapeHtml (field l (js ''amount'')) = Inr amount"
    and r: "row = js ''<tr><td>'' @ received @
            js ''</td><td>'' @ company @
            js ''</td><td>'' @ contact @
            js ''</td><td>'' @ email @
            js ''</td><td>'' @ phone @
            js ''</td><td>'' @ amount @
            js ''</td><td>'' @ links @ js ''</td></tr>''"
    by (auto simp: admin_row_def and_then_def split: sum.splits)
  note m = filesHtml_markup [OF f]
  note c = e [THEN escapeHtml_escaped]
  have a: "filter markup row = filter markup (row_skeleton (file_count l))"
    unfolding r row_skeleton_def by (simp add: c m)
  have b: "references_only row"
    unfolding r
    by (intro references_only_append cell_literals c [THEN conjunct2] conjunct2 [OF m])
  from a b show ?thesis
    by (rule conjI)
qed

lemma to_string_length_plain:
  assumes "js_length v = Inr n" and "iterate v = Inr ls" and "to_string n = Inr shown"
  shows "filter markup shown = [] \<and> references_only shown"
proof -
  from assms(1,2) obtain k where n: "n = Num k"
    by (cases v) auto
  have "\<forall>u \<in> set (show_int k). \<not> markup u \<and> u \<noteq> cu CHR ''&''"
    using show_int_safe safe_char_plain by blast
  then have "filter markup (show_int k) = []" and "cu CHR ''&'' \<notin> set (show_int k)"
    by (auto simp: filter_empty_conv)
  with n assms(3) show ?thesis
    by (auto simp: references_only_plain)
qed

lemma admin_frame_plain:
  "references_only admin_head" "references_only admin_columns" "references_only admin_foot"
  by (rule references_only_plain, simp add: admin_head_def admin_columns_def admin_foot_def
      js_def cu_def)+

lemma markup_concat_rows:
  assumes "map_err f ls = Inr rows"
    and "\<And>l row. f l = Inr row \<Longrightarrow> filter markup row = filter markup (g l)"
  shows "filter markup (concat rows) = filter markup (concat (map g ls))"
  using assms(1)
proof (induction ls arbitrary: rows)
  case Nil
  then show ?case by simp
next
  case (Cons l ls)
  from Cons.prems obtain row rest where
    y: "f l = Inr row" and r: "map_err f ls = Inr rest" and e: "rows = row # rest"
    by (auto split: sum.splits)
  from Cons.IH [OF r] assms(2) [OF y] e show ?case
    by simp
qed

text \<open>
  Claim C7. The replacement \<^verbatim>\<open>escapeHtml\<close> applies leaves none of the characters
  \<^verbatim>\<open>< > " '\<close> in any string, and every ampersand of its result starts one of the
  five character references; so it is with every value \<^verbatim>\<open>escapeHtml\<close> returns. In
  the page of \<^verbatim>\<open>GET /admin\<close> every field that is rendered -- the date, the company,
  the contact, the e-mail address, the phone number, the amount, and the path and the
  original name of every file -- goes through \<^verbatim>\<open>escapeHtml\<close>. So the markup
  characters of the page are exactly those of the page's own template, with one row
  per lead and one link per file, whatever the leads contain, and every ampersand of
  the page starts a character reference.
\<close>

theorem admin_page_escapes_fields:
  assumes "admin_html rt leads = Inr html"
  shows "filter markup (escape t) = [] \<and> references_only (escape t) \<and>
         (\<forall>x. escapeHtml v = Inr x \<longrightarrow> filter markup x = [] \<and> references_only x) \<and>
         (\<exists>ls. iterate leads = Inr ls \<and>
            filter markup html =
              filter markup (admin_head @ admin_columns @
                             concat (map (\<lambda>l. row_skeleton (file_count l)) ls) @ admin_foot)) \<and>
         references_only html"
proof -
  from assms obtain n shown ls rows where
    n: "js_length leads = Inr n"
    and s: "to_string n = Inr shown"
    and i: "iterate leads = Inr ls"
    and m: "map_err (admin_row rt) ls = Inr rows"
    and h: "html = admin_head @ shown @ admin_columns @ concat rows @ admin_foot"
    by (auto simp: admin_html_def and_then_def split: sum.splits)
  note t = to_string_length_plain [OF n i s]
  have c: "filter markup (concat rows) =
      filter markup (concat (map (\<lambda>l. row_skeleton (file_count l)) ls))"
    using m by (rule markup_concat_rows) (simp add: admin_row_markup)
  have a: "filter markup html =
      filter markup (admin_head @ admin_columns @
        concat (map (\<lambda>l. row_skeleton (file_count l)) ls) @ admin_foot)"
    unfolding h by (simp add: t c)
  have "\<forall>row \<in> set rows. references_only row"
    using m by (rule map_err_all [where P = references_only]) (simp add: admin_row_markup)
  then have "references_only (concat rows)"
    by (rule references_only_concat)
  then have b: "references_only html"
    unfolding h
    by (intro references_only_append admin_frame_plain conjunct2 [OF t])
  from a b i show ?thesis
    using escapeHtml_escaped [of v] by (simp add: markup_escape references_only_escape)
qed

lemma get_field_make_lead:
  "get_field (make_lead now stamp body fls) k = Inr (field (make_lead now stamp body fls) k)"
  by (simp add: get_field_def make_lead_def)

lemma map_err_total:
  "\<forall>x \<in> set xs. \<exists>y. f x = Inr y \<Longrightarrow> \<exists>ys. map_err f xs = Inr ys"
  by (induction xs) auto

lemma file_link_entry: "\<exists>x. file_link (file_entry rt f) = Inr x"
  by (simp add: file_link_def file_entry_def get_field_def and_then_def escapeHtml_Str
      js_eq_iff)

text \<open>
  The rendering does not throw on what the program stores for a form whose fields are
  texts: a lead built by the submission handler from such a body has a row, and a
  store that holds leads with rows has a page. (A lead with a field that is an object
  with a property \<^verbatim>\<open>toString\<close>, which a JSON body can hold, has none.)
\<close>

lemma admin_row_make_lead:
  assumes "\<And>k. field body k = Undefined \<or> (\<exists>t. field body k = Str t)"
  shows "\<exists>row. admin_row rt (make_lead now stamp body (map (file_entry rt) fls)) = Inr row"
proof -
  have t: "\<exists>t. js_or (field body k) (Str []) = Str t" for k
    using assms [of k] by (auto simp: js_or_def)
  have t2: "\<exists>t. js_or (js_or (field body k) (field body k')) (Str []) = Str t" for k k'
    using assms [of k] assms [of k'] by (auto simp: js_or_def)
  have "\<exists>links. map_err file_link (map (file_entry rt) fls) = Inr links"
    by (rule map_err_total) (simp add: file_link_entry)
  then obtain links where
    "filesHtml (make_lead now stamp body (map (file_entry rt) fls)) = Inr (join_with (js '' '') links)"
    by (auto simp: filesHtml_def get_field_make_lead make_lead_fields and_then_def js_or_def)
  moreover obtain c where "js_or (field body (js ''company'')) (Str []) = Str c"
    using t by blast
  moreover obtain n where
    "js_or (js_or (field body (js ''name'')) (field body (js ''contactName''))) (Str []) = Str n"
    using t2 by blast
  moreover obtain e where "js_or (field body (js ''email'')) (Str []) = Str e"
    using t by blast
  moreover obtain p where "js_or (field body (js ''phone'')) (Str []) = Str p"
    using t by blast
  moreover obtain a where "js_or (field body (js ''amount'')) (Str []) = Str a"
    using t by blast
  ultimately show ?thesis
    by (simp add: admin_row_def make_lead_fields and_then_def date_text_def escapeHtml_Str)
qed

lemma admin_html_total:
  "\<forall>l \<in> set ls. \<exists>row. admin_row rt l = Inr row \<Longrightarrow> \<exists>html. admin_html rt (Arr ls) = Inr html"
proof -
  assume "\<forall>l \<in> set ls. \<exists>row. admin_row rt l = Inr row"
  then have "\<exists>rows. map_err (admin_row rt) ls = Inr rows"
    by (rule map_err_total)
  then show ?thesis
    by (auto simp: admin_html_def and_then_def)
qed

lemma admin_row_example:
  "admin_row example_node
     (make_lead 1700000000000 example_stamp
        (Obj [(js ''company'', Str (js ''<script>alert(1)</script>''))]) []) =
   Inr (js ''<tr><td>11/14/2023, 10:13:20 PM</td><td>&lt;script&gt;alert(1)&lt;/script&gt;</td><td></td><td></td><td></td><td></td><td></td></tr>'')"
proof -
  let ?l = "make_lead 1700000000000 example_stamp
        (Obj [(js ''company'', Str (js ''<script>alert(1)</script>''))]) []"
  have f: "filesHtml ?l = Inr []"
    by (simp add: filesHtml_def get_field_make_lead make_lead_fields and_then_def js_or_def)
  have d: "date_text example_node (field ?l (js ''receivedAt'')) =
      Inr (Str (js ''11/14/2023, 10:13:20 PM''))"
    by (simp add: make_lead_fields example_node_def date_text_def)
  have d': "escapeHtml (Str (js ''11/14/2023, 10:13:20 PM'')) =
      Inr (js ''11/14/2023, 10:13:20 PM'')"
    by (simp add: escapeHtml_Str) (simp add: escape_def escape_unit_def js_def cu_eq_iff)
  have c: "escapeHtml (field ?l (js ''company'')) =
      Inr (js ''&lt;script&gt;alert(1)&lt;/script&gt;'')"
    by (simp add: make_lead_fields js_or_def js_eq_iff js_Nil_iff escapeHtml_Str escape_example)
  have e: "escapeHtml (field ?l (js ''contactName'')) = Inr []"
    "escapeHtml (field ?l (js ''email'')) = Inr []"
    "escapeHtml (field ?l (js ''phone'')) = Inr []"
    "escapeHtml (field ?l (js ''amount'')) = Inr []"
    by (simp_all add: make_lead_fields js_or_def js_eq_iff escapeHtml_Str escape_def)
  have "admin_row example_node ?l =
      Inr (js ''<tr><td>'' @ js ''11/14/2023, 10:13:20 PM'' @
           js ''</td><td>'' @ js ''&lt;script&gt;alert(1)&lt;/script&gt;'' @
           js ''</td><td>'' @ js ''</td><td>'' @ js ''</td><td>'' @ js ''</td><td>'' @
           js ''</td><td>'' @ js ''</td></tr>'')"
    by (simp add: admin_row_def f d d' c e and_then_def)
  then show ?thesis
    by (simp add: js_def)
qed

theorem admin_page_escapes_fields_witness:
  "escapeHtml (Str (js ''<script>alert(1)</script>'')) =
     Inr (js ''&lt;script&gt;alert(1)&lt;/script&gt;'') \<and>
   (\<exists>html.
      admin_html example_node
        (Arr [make_lead 1700000000000 example_stamp
                (Obj [(js ''company'', Str (js ''<script>alert(1)</script>''))]) []]) =
        Inr html \<and>
      filter markup html =
        filter markup (admin_head @ admin_columns @ row_skeleton 0 @ admin_foot) \<and>
      references_only html)"
proof -
  let ?l = "make_lead 1700000000000 example_stamp
        (Obj [(js ''company'', Str (js ''<script>alert(1)</script>''))]) []"
  let ?row = "js ''<tr><td>11/14/2023, 10:13:20 PM</td><td>&lt;script&gt;alert(1)&lt;/script&gt;</td><td></td><td></td><td></td><td></td><td></td></tr>''"
  let ?html = "admin_head @ show_int 1 @ admin_columns @ concat [?row] @ admin_foot"
  have h: "admin_html example_node (Arr [?l]) = Inr ?html"
    by (simp add: admin_html_def and_then_def admin_row_example)
  from admin_page_escapes_fields [OF h]
  obtain ls where i: "iterate (Arr [?l]) = Inr ls"
    and m: "filter markup ?html =
              filter markup (admin_head @ admin_columns @
                             concat (map (\<lambda>l. row_skeleton (file_count l)) ls) @ admin_foot)"
    and r: "references_only ?html"
    by blast
  from i have ls: "ls = [?l]"
    by simp
  have "file_count ?l = 0"
    by (simp add: file_count_def make_lead_fields js_or_def)
  with m ls have "filter markup ?html =
      filter markup (admin_head @ admin_columns @ row_skeleton 0 @ admin_foot)"
    by simp
  moreover have "escapeHtml (Str (js ''<script>alert(1)</script>'')) =
     Inr (js ''&lt;script&gt;alert(1)&lt;/script&gt;'')"
    by (simp add: escapeHtml_Str escape_example)
  ultimately show ?thesis
    using h r by blast
qed

end
